theory Spec2Isabelle
  imports Main "HOL-Library.AList"
begin

section \<open>Python values used by the server\<close>

subsection \<open>Strings\<close>

text \<open>
  A Python \<open>str\<close> is a sequence of Unicode code points, so it is modelled as a list of
  code points. \<open>u\<close> turns an ASCII literal of the source into such a string.
\<close>

type_synonym pystr = "nat list"

definition u :: "string \<Rightarrow> pystr" where
  "u s = map of_char s"

text \<open>
  \<open>str.isspace\<close> on one code point: the white space characters of CPython
  (tab to carriage return, the four separators 0x1C to 0x1F, space, NEL, no-break space,
  and the Unicode space separators).
\<close>

definition isspace :: "nat \<Rightarrow> bool" where
  "isspace c =
     ((9 \<le> c \<and> c \<le> 13) \<or> (28 \<le> c \<and> c \<le> 32) \<or> c = 133 \<or> c = 160 \<or> c = 5760
      \<or> (8192 \<le> c \<and> c \<le> 8202) \<or> c = 8232 \<or> c = 8233 \<or> c = 8239 \<or> c = 8287
      \<or> c = 12288)"

text \<open>
  \<open>s.split()\<close> with no argument: the maximal runs of characters that are not white
  space, in order; leading, trailing and repeated white space produce no empty word.
  \<open>split_from cur rest\<close> scans \<open>rest\<close> with the word read so far in \<open>cur\<close>.
\<close>

fun split_from :: "pystr \<Rightarrow> pystr \<Rightarrow> pystr list" where
  "split_from cur [] = (if cur = [] then [] else [cur])"
| "split_from cur (c # cs) =
     (if isspace c then (if cur = [] then split_from [] cs else cur # split_from [] cs)
      else split_from (cur @ [c]) cs)"

definition str_split :: "pystr \<Rightarrow> pystr list" where
  "str_split s = split_from [] s"

text \<open>\<open>str(n)\<close> of an integer, as an f-string formats it: decimal digits, with a sign.\<close>

fun str_of_nat :: "nat \<Rightarrow> pystr" where
  "str_of_nat n = (if n < 10 then [48 + n] else str_of_nat (n div 10) @ [48 + n mod 10])"

declare str_of_nat.simps [simp del]

definition str_of_int :: "int \<Rightarrow> pystr" where
  "str_of_int i = (if i < 0 then 45 # str_of_nat (nat (- i)) else str_of_nat (nat i))"

subsection \<open>Dictionaries and lists that are sent as JSON\<close>

text \<open>
  The responses and chunks of the source are Python dictionaries built from strings,
  integers, \<open>None\<close>, lists and dictionaries. A dictionary keeps the insertion order of
  its keys, which is the order \<open>json.dumps\<close> writes them in, so it is an association list.
\<close>

datatype json =
    JNull
  | JBool bool
  | JInt int
  | JStr pystr
  | JList "json list"
  | JDict "(pystr \<times> json) list"

text \<open>\<open>d[k]\<close> and \<open>d.get(k)\<close> on a value: \<open>None\<close> when the value is no dictionary or lacks the key.\<close>

definition dict_get :: "json \<Rightarrow> pystr \<Rightarrow> json option" where
  "dict_get d k = (case d of JDict kvs \<Rightarrow> map_of kvs k | _ \<Rightarrow> None)"

text \<open>\<open>xs[0]\<close> on a value.\<close>

definition list_first :: "json \<Rightarrow> json option" where
  "list_first v = (case v of JList (x # _) \<Rightarrow> Some x | _ \<Rightarrow> None)"

section \<open>The backend contract: \<open>app/core/llm/base.py\<close>\<close>

text \<open>
  \<open>_get_current_timestamp\<close> reads the clock. Every function that calls it takes the
  readings as arguments, one per call, in the order of the calls.
\<close>

definition usage_dict :: "nat \<Rightarrow> nat \<Rightarrow> json" where
  "usage_dict prompt_tokens completion_tokens =
     JDict [(u ''prompt_tokens'', JInt (int prompt_tokens)),
            (u ''completion_tokens'', JInt (int completion_tokens)),
            (u ''total_tokens'', JInt (int prompt_tokens + int completion_tokens))]"

definition create_completion_response ::
  "int \<Rightarrow> int \<Rightarrow> pystr \<Rightarrow> pystr \<Rightarrow> nat \<Rightarrow> nat \<Rightarrow> pystr \<Rightarrow> json" where
  "create_completion_response t_id t_created text model prompt_tokens completion_tokens
       finish_reason =
     JDict [(u ''id'', JStr (u ''cmpl-'' @ str_of_int t_id)),
            (u ''object'', JStr (u ''text_completion'')),
            (u ''created'', JInt t_created),
            (u ''model'', JStr model),
            (u ''choices'',
               JList [JDict [(u ''text'', JStr text),
                             (u ''index'', JInt 0),
                             (u ''logprobs'', JNull),
                             (u ''finish_reason'', JStr finish_reason)]]),
            (u ''usage'', usage_dict prompt_tokens completion_tokens)]"

definition create_chat_completion_response ::
  "int \<Rightarrow> int \<Rightarrow> pystr \<Rightarrow> pystr \<Rightarrow> nat \<Rightarrow> nat \<Rightarrow> pystr \<Rightarrow> pystr \<Rightarrow> json" where
  "create_chat_completion_response t_id t_created content model prompt_tokens
       completion_tokens finish_reason role =
     JDict [(u ''id'', JStr (u ''chatcmpl-'' @ str_of_int t_id)),
            (u ''object'', JStr (u ''chat.completion'')),
            (u ''created'', JInt t_created),
            (u ''model'', JStr model),
            (u ''choices'',
               JList [JDict [(u ''index'', JInt 0),
                             (u ''message'',
                                JDict [(u ''role'', JStr role), (u ''content'', JStr content)]),
                             (u ''finish_reason'', JStr finish_reason)]]),
            (u ''usage'', usage_dict prompt_tokens completion_tokens)]"

section \<open>The mock backend: \<open>app/core/llm/mock_llm.py\<close>\<close>

definition model_name :: pystr where
  "model_name = u ''mock-gpt''"

definition model_id :: pystr where
  "model_id = u ''mock-gpt-1''"

text \<open>
  Every generation method takes the sampling parameters (\<open>max_tokens\<close>, \<open>temperature\<close>,
  \<open>top_p\<close>, \<open>n\<close>, \<open>stop\<close> and the keyword arguments) and ignores them; they are
  the one argument \<open>params\<close>. The delays (\<open>asyncio.sleep\<close>) are left out.
\<close>

definition complete :: "int \<Rightarrow> int \<Rightarrow> 'p \<Rightarrow> pystr \<Rightarrow> json" where
  "complete t_id t_created params prompt =
     (let response_text = u ''This is a mock response to: '' @ prompt;
          prompt_tokens = length (str_split prompt);
          completion_tokens = length (str_split response_text)
      in create_completion_response t_id t_created response_text model_name prompt_tokens
           completion_tokens (u ''stop''))"

text \<open>
  An asynchronous generator that yields finitely many chunks and then returns is the list
  of its chunks, in the order they are yielded. The loop
  \<open>for i, word in enumerate(words)\<close> is \<open>complete_stream_loop\<close>, with \<open>n = len(words)\<close>.
\<close>

fun complete_stream_loop :: "pystr \<Rightarrow> int \<Rightarrow> nat \<Rightarrow> nat \<Rightarrow> pystr list \<Rightarrow> json list" where
  "complete_stream_loop completion_id created n i [] = []"
| "complete_stream_loop completion_id created n i (word # rest) =
     (let is_last = (int i = int n - 1);
          finish_reason = (if is_last then JStr (u ''stop'') else JNull)
      in JDict [(u ''id'', JStr completion_id),
                (u ''object'', JStr (u ''text_completion'')),
                (u ''created'', JInt created),
                (u ''model'', JStr model_name),
                (u ''choices'',
                   JList [JDict [(u ''text'', JStr (word @ u '' '')),
                                 (u ''index'', JInt 0),
                                 (u ''logprobs'', JNull),
                                 (u ''finish_reason'', finish_reason)]])]
         # complete_stream_loop completion_id created n (Suc i) rest)"

definition complete_stream :: "int \<Rightarrow> int \<Rightarrow> 'p \<Rightarrow> pystr \<Rightarrow> json list" where
  "complete_stream t_id t_created params prompt =
     (let response_text = u ''This is a mock response to: '' @ prompt;
          words = str_split response_text;
          completion_id = u ''cmpl-'' @ str_of_int t_id;
          created = t_created;
          prompt_tokens = length (str_split prompt);
          completion_tokens = length words
      in complete_stream_loop completion_id created (length words) 0 words @
         [JDict [(u ''id'', JStr completion_id),
                 (u ''object'', JStr (u ''text_completion'')),
                 (u ''created'', JInt created),
                 (u ''model'', JStr model_name),
                 (u ''choices'',
                    JList [JDict [(u ''text'', JStr []),
                                  (u ''index'', JInt 0),
                                  (u ''logprobs'', JNull),
                                  (u ''finish_reason'', JStr (u ''stop''))]]),
                 (u ''usage'', usage_dict prompt_tokens completion_tokens)]])"

text \<open>
  A message as the handler passes it (\<open>msg.model_dump()\<close>): a dictionary with the keys
  \<open>role\<close>, \<open>content\<close> and \<open>name\<close>. The dictionary the backend substitutes for an
  empty list has no \<open>name\<close>, and the backend never reads that key.
\<close>

record message =
  role :: pystr
  content :: pystr
  name :: "pystr option"

definition response_content_of :: "message list \<Rightarrow> pystr" where
  "response_content_of messages =
     (let last_message =
            (if messages \<noteq> [] then last messages
             else \<lparr>role = u ''user'', content = [], name = None\<rparr>)
      in if role last_message = u ''user''
         then u ''This is a mock chat response to: '' @ content last_message
         else u ''I'' @ [39] @ u ''m a mock AI assistant. How can I help you today?'')"

definition chat_complete :: "int \<Rightarrow> int \<Rightarrow> 'p \<Rightarrow> message list \<Rightarrow> json" where
  "chat_complete t_id t_created params messages =
     (let response_content = response_content_of messages;
          prompt_tokens = sum_list (map (\<lambda>msg. length (str_split (content msg))) messages);
          completion_tokens = length (str_split response_content)
      in create_chat_completion_response t_id t_created response_content model_name
           prompt_tokens completion_tokens (u ''stop'') (u ''assistant''))"

fun chat_stream_loop :: "pystr \<Rightarrow> int \<Rightarrow> nat \<Rightarrow> nat \<Rightarrow> pystr list \<Rightarrow> json list" where
  "chat_stream_loop completion_id created n i [] = []"
| "chat_stream_loop completion_id created n i (word # rest) =
     (let is_last = (int i = int n - 1);
          finish_reason = (if is_last then JStr (u ''stop'') else JNull)
      in JDict [(u ''id'', JStr completion_id),
                (u ''object'', JStr (u ''chat.completion.chunk'')),
                (u ''created'', JInt created),
                (u ''model'', JStr model_name),
                (u ''choices'',
                   JList [JDict [(u ''index'', JInt 0),
                                 (u ''delta'', JDict [(u ''content'', JStr (word @ u '' ''))]),
                                 (u ''finish_reason'', finish_reason)]])]
         # chat_stream_loop completion_id created n (Suc i) rest)"

definition chat_complete_stream :: "int \<Rightarrow> int \<Rightarrow> 'p \<Rightarrow> message list \<Rightarrow> json list" where
  "chat_complete_stream t_id t_created params messages =
     (let response_content = response_content_of messages;
          words = str_split response_content;
          completion_id = u ''chatcmpl-'' @ str_of_int t_id;
          created = t_created;
          prompt_tokens = sum_list (map (\<lambda>msg. length (str_split (content msg))) messages);
          completion_tokens = length words
      in JDict [(u ''id'', JStr completion_id),
                (u ''object'', JStr (u ''chat.completion.chunk'')),
                (u ''created'', JInt created),
                (u ''model'', JStr model_name),
                (u ''choices'',
                   JList [JDict [(u ''index'', JInt 0),
                                 (u ''delta'', JDict [(u ''role'', JStr (u ''assistant''))]),
                                 (u ''finish_reason'', JNull)]])]
         # chat_stream_loop completion_id created (length words) 0 words @
         [JDict [(u ''id'', JStr completion_id),
                 (u ''object'', JStr (u ''chat.completion.chunk'')),
                 (u ''created'', JInt created),
                 (u ''model'', JStr model_name),
                 (u ''choices'',
                    JList [JDict [(u ''index'', JInt 0),
                                  (u ''delta'', JDict []),
                                  (u ''finish_reason'', JStr (u ''stop''))]]),
                 (u ''usage'', usage_dict prompt_tokens completion_tokens)]])"

text \<open>
  \<open>int(datetime(2023, 1, 1).timestamp())\<close> is the midnight that begins the year 2023 in
  the time zone of the process (1672531200 under UTC); it is the argument \<open>t_2023\<close>.
\<close>

definition get_models :: "int \<Rightarrow> json list" where
  "get_models t_2023 =
     [JDict [(u ''id'', JStr model_id),
             (u ''object'', JStr (u ''model'')),
             (u ''created'', JInt t_2023),
             (u ''owned_by'', JStr (u ''mock-organization'')),
             (u ''permission'', JList []),
             (u ''root'', JStr model_id),
             (u ''parent'', JNull)]]"

text \<open>
  An exception of the source, with its message (\<open>str(e)\<close>). \<open>ValueError m\<close> is an
  instance of \<open>ValueError\<close>, which \<open>except ValueError\<close> catches; \<open>OtherException cls m\<close>
  is an instance of any other subclass of \<open>Exception\<close>, named \<open>cls\<close>, which only
  \<open>except Exception\<close> catches. What is raised outside \<open>Exception\<close>, such as the
  cancellation of a task, is not part of the model.
\<close>

datatype exn = ValueError pystr | OtherException pystr pystr

fun exn_str :: "exn \<Rightarrow> pystr" where
  "exn_str (ValueError m) = m"
| "exn_str (OtherException cls m) = m"

text \<open>
  An asynchronous generator, run to its end: the chunks it yields, in order, and then
  either its return or the exception it raises. The mock backend's generators always
  return.
\<close>

datatype 'a agen = Yield 'a "'a agen" | Return | Raise exn

fun agen_of_list :: "'a list \<Rightarrow> 'a agen" where
  "agen_of_list [] = Return"
| "agen_of_list (x # xs) = Yield x (agen_of_list xs)"

text \<open>
  The values a prompt can hold: strings, integers and lists of such values. Python
  checks their types at run time only (\<open>isinstance\<close>), so they are one type here.
\<close>

datatype pyval = VStr pystr | VInt int | VList "pyval list"

fun is_str :: "pyval \<Rightarrow> bool" where
  "is_str (VStr s) = True"
| "is_str v = False"

fun is_int :: "pyval \<Rightarrow> bool" where
  "is_int (VInt i) = True"
| "is_int v = False"

fun is_list :: "pyval \<Rightarrow> bool" where
  "is_list (VList xs) = True"
| "is_list v = False"

fun type_name :: "pyval \<Rightarrow> pystr" where
  "type_name (VStr s) = u ''str''"
| "type_name (VInt i) = u ''int''"
| "type_name (VList xs) = u ''list''"

text \<open>
  What every backend class offers (\<open>BaseLLM\<close>): the four generation methods and the model
  list. An awaited method gives its result or the exception it raises; a streaming method
  gives its generator. A class is the record of its methods.
\<close>

record 'p backend =
  complete_method :: "'p \<Rightarrow> pyval \<Rightarrow> exn + json"
  complete_stream_method :: "'p \<Rightarrow> pyval \<Rightarrow> json agen"
  chat_complete_method :: "'p \<Rightarrow> message list \<Rightarrow> exn + json"
  chat_complete_stream_method :: "'p \<Rightarrow> message list \<Rightarrow> json agen"
  get_models_method :: "json list"

text \<open>
  The class \<open>MockLLM\<close>, with the clock readings its methods take. A prompt that is no
  string has no method \<open>split\<close>: \<open>prompt.split()\<close> raises \<open>AttributeError\<close>, in
  \<open>complete\<close> before anything is returned and in \<open>complete_stream\<close> before the first
  chunk.
\<close>

definition no_split_attribute :: "pyval \<Rightarrow> exn" where
  "no_split_attribute v =
     OtherException (u ''AttributeError'')
       ([39] @ type_name v @ [39] @ u '' object has no attribute '' @ [39] @ u ''split'' @ [39])"

definition MockLLM :: "int \<Rightarrow> int \<Rightarrow> int \<Rightarrow> 'p backend" where
  "MockLLM t_id t_created t_2023 =
     \<lparr>complete_method =
        (\<lambda>params prompt. case prompt of
            VStr s \<Rightarrow> Inr (complete t_id t_created params s)
          | _ \<Rightarrow> Inl (no_split_attribute prompt)),
      complete_stream_method =
        (\<lambda>params prompt. case prompt of
            VStr s \<Rightarrow> agen_of_list (complete_stream t_id t_created params s)
          | _ \<Rightarrow> Raise (no_split_attribute prompt)),
      chat_complete_method =
        (\<lambda>params messages. Inr (chat_complete t_id t_created params messages)),
      chat_complete_stream_method =
        (\<lambda>params messages. agen_of_list (chat_complete_stream t_id t_created params messages)),
      get_models_method = get_models t_2023\<rparr>"

section \<open>The registry: \<open>app/core/llm/factory.py\<close>\<close>

text \<open>
  An instance is an object of its own identity, made by calling a class. The class
  attributes of \<open>LLMFactory\<close> are the state: \<open>_llm_classes\<close>, \<open>_instances\<close> and
  \<open>_default_model\<close>. Both dictionaries keep insertion order, and assigning to an
  existing key keeps its place, which is \<open>AList.update\<close>. \<open>constructed\<close> records the
  constructor calls made so far, by model name; the object a call makes is numbered by
  the calls before it. Calling a class returns an instance (the constructor of \<open>MockLLM\<close>
  sets two fields and nothing else), and the calls on the registry come one after
  another: \<open>get_instance\<close> never waits.
\<close>

record 'p llm_instance =
  obj_id :: nat
  klass :: "'p backend"

record 'p factory =
  llm_classes :: "(pystr \<times> 'p backend) list"
  instances :: "(pystr \<times> 'p llm_instance) list"
  default_model :: "pystr option"
  constructed :: "pystr list"

definition initial_factory :: "'p factory" where
  "initial_factory = \<lparr>llm_classes = [], instances = [], default_model = None, constructed = []\<rparr>"

definition register :: "pystr \<Rightarrow> 'p backend \<Rightarrow> bool \<Rightarrow> 'p factory \<Rightarrow> 'p factory" where
  "register name' llm_class is_default fs =
     (let fs1 = fs\<lparr>llm_classes := AList.update name' llm_class (llm_classes fs)\<rparr>
      in if is_default \<or> default_model fs1 = None
         then fs1\<lparr>default_model := Some name'\<rparr>
         else fs1)"

text \<open>\<open>cls._instances[model_name] = cls._llm_classes[model_name]()\<close>, the class given.\<close>

definition construct :: "pystr \<Rightarrow> 'p backend \<Rightarrow> 'p factory \<Rightarrow> 'p llm_instance \<times> 'p factory" where
  "construct name' llm_class fs =
     (let i = \<lparr>obj_id = length (constructed fs), klass = llm_class\<rparr>
      in (i, fs\<lparr>instances := AList.update name' i (instances fs),
                 constructed := constructed fs @ [name']\<rparr>))"

text \<open>The second half of \<open>get_instance\<close>, once the name is known.\<close>

definition instance_for :: "pystr \<Rightarrow> 'p factory \<Rightarrow> (exn + 'p llm_instance) \<times> 'p factory" where
  "instance_for n fs =
     (case map_of (instances fs) n of
        Some i \<Rightarrow> (Inr i, fs)
      | None \<Rightarrow>
          (case map_of (llm_classes fs) n of
             None \<Rightarrow> (Inl (ValueError (u ''Model '' @ [39] @ n @ [39] @ u '' not found'')), fs)
           | Some c \<Rightarrow> (let (i, fs1) = construct n c fs in (Inr i, fs1))))"

definition get_instance ::
  "pystr option \<Rightarrow> 'p factory \<Rightarrow> (exn + 'p llm_instance) \<times> 'p factory" where
  "get_instance model_name' fs =
     (case model_name' of
        None \<Rightarrow>
          (case default_model fs of
             None \<Rightarrow> (Inl (ValueError (u ''No default model registered'')), fs)
           | Some d \<Rightarrow> instance_for d fs)
      | Some n \<Rightarrow> instance_for n fs)"

text \<open>
  \<open>for model_name in cls._llm_classes\<close>: the loop visits the registered names in
  insertion order; \<open>cls._llm_classes[model_name]\<close> is the class stored beside the name.
\<close>

fun get_available_models_loop ::
  "(pystr \<times> 'p backend) list \<Rightarrow> json list \<Rightarrow> 'p factory \<Rightarrow> json list \<times> 'p factory" where
  "get_available_models_loop [] models fs = (models, fs)"
| "get_available_models_loop ((n, c) # rest) models fs =
     (let (i, fs1) = (case map_of (instances fs) n of
                        Some i \<Rightarrow> (i, fs)
                      | None \<Rightarrow> construct n c fs);
          llm_models = get_models_method (klass i)
      in get_available_models_loop rest (models @ llm_models) fs1)"

definition get_available_models :: "'p factory \<Rightarrow> json list \<times> 'p factory" where
  "get_available_models fs = get_available_models_loop (llm_classes fs) [] fs"

text \<open>
  The calls a process can make on the registry, and the state a sequence of them leaves,
  whatever each returns or raises.
\<close>

datatype 'p factory_call =
    Register pystr "'p backend" bool
  | GetInstance "pystr option"
  | GetAvailableModels

fun is_register :: "'p factory_call \<Rightarrow> bool" where
  "is_register (Register n c d) = True"
| "is_register call = False"

fun after_call :: "'p factory_call \<Rightarrow> 'p factory \<Rightarrow> 'p factory" where
  "after_call (Register n c d) fs = register n c d fs"
| "after_call (GetInstance m) fs = snd (get_instance m fs)"
| "after_call GetAvailableModels fs = snd (get_available_models fs)"

fun after_calls :: "'p factory_call list \<Rightarrow> 'p factory \<Rightarrow> 'p factory" where
  "after_calls [] fs = fs"
| "after_calls (call # calls) fs = after_calls calls (after_call call fs)"

section \<open>Responses and the stream framer: \<open>app/utils/api.py\<close>\<close>

subsection \<open>\<open>json.dumps\<close>\<close>

text \<open>
  \<open>json.dumps\<close> with its default arguments: items separated by a comma and a space,
  keys from values by a colon and a space, and every character outside the printable
  ASCII range escaped (\<open>ensure_ascii\<close>), a code point beyond the basic plane as a
  surrogate pair. The code points written as numbers are the quote (34), the
  backslash (92) and the letters after it.
\<close>

definition hex_digit :: "nat \<Rightarrow> nat" where
  "hex_digit d = (if d < 10 then 48 + d else 87 + d)"

definition hex4 :: "nat \<Rightarrow> pystr" where
  "hex4 n = [hex_digit (n div 4096 mod 16), hex_digit (n div 256 mod 16),
             hex_digit (n div 16 mod 16), hex_digit (n mod 16)]"

definition escape_char :: "nat \<Rightarrow> pystr" where
  "escape_char c =
     (if c = 92 then [92, 92]
      else if c = 34 then [92, 34]
      else if c = 8 then [92, 98]
      else if c = 12 then [92, 102]
      else if c = 10 then [92, 110]
      else if c = 13 then [92, 114]
      else if c = 9 then [92, 116]
      else if 32 \<le> c \<and> c \<le> 126 then [c]
      else if c < 65536 then [92, 117] @ hex4 c
      else (let n = c - 65536;
                s1 = 55296 + n div 1024 mod 1024;
                s2 = 56320 + n mod 1024
            in [92, 117] @ hex4 s1 @ [92, 117] @ hex4 s2))"

definition encode_str :: "pystr \<Rightarrow> pystr" where
  "encode_str s = [34] @ concat (map escape_char s) @ [34]"

fun join :: "pystr \<Rightarrow> pystr list \<Rightarrow> pystr" where
  "join sep [] = []"
| "join sep [x] = x"
| "join sep (x # y # ys) = x @ sep @ join sep (y # ys)"

fun json_dumps :: "json \<Rightarrow> pystr" where
  "json_dumps JNull = u ''null''"
| "json_dumps (JBool b) = (if b then u ''true'' else u ''false'')"
| "json_dumps (JInt i) = str_of_int i"
| "json_dumps (JStr s) = encode_str s"
| "json_dumps (JList xs) = u ''['' @ join (u '', '') (map json_dumps xs) @ u '']''"
| "json_dumps (JDict kvs) =
     u ''{'' @ join (u '', '') (map (\<lambda>(k, v). encode_str k @ u '': '' @ json_dumps v) kvs) @ u ''}''"

subsection \<open>Responses\<close>

text \<open>
  What a handler gives back: a \<open>JSONResponse\<close> with its status code and content, a
  \<open>StreamingResponse\<close> with the events its body yields and its media type, or a
  dictionary, which the framework sends with status 200.
\<close>

datatype response =
    JSONResponse nat json
  | StreamingResponse "pystr list" pystr
  | Returned json

text \<open>\<open>if param:\<close> and \<open>if code:\<close> hold for a string that is neither \<open>None\<close> nor empty.\<close>

definition create_error_response ::
  "pystr \<Rightarrow> pystr \<Rightarrow> nat \<Rightarrow> pystr option \<Rightarrow> pystr option \<Rightarrow> response" where
  "create_error_response message type' status_code param code =
     (let error = [(u ''message'', JStr message), (u ''type'', JStr type')];
          error1 = (case param of
                      Some p \<Rightarrow> if p \<noteq> [] then AList.update (u ''param'') (JStr p) error
                                else error
                    | None \<Rightarrow> error);
          error2 = (case code of
                      Some c \<Rightarrow> if c \<noteq> [] then AList.update (u ''code'') (JStr c) error1
                                else error1
                    | None \<Rightarrow> error1)
      in JSONResponse status_code (JDict [(u ''error'', JDict error2)]))"

subsection \<open>The stream framer\<close>

text \<open>
  \<open>stream_generator\<close>, the body of the response that \<open>create_stream_response\<close> builds:
  one event for each chunk the backend's generator yields, then the sentinel; if the
  generator raises, the \<open>except\<close> branch yields the error event and the sentinel.
  An event ends with two line feeds (10).
\<close>

definition done_event :: pystr where
  "done_event = u ''data: [DONE]'' @ [10, 10]"

definition data_event :: "json \<Rightarrow> pystr" where
  "data_event chunk = u ''data: '' @ json_dumps chunk @ [10, 10]"

definition error_data :: "exn \<Rightarrow> json" where
  "error_data e =
     JDict [(u ''error'',
             JDict [(u ''message'', JStr (exn_str e)), (u ''type'', JStr (u ''server_error''))])]"

fun stream_generator :: "json agen \<Rightarrow> pystr list" where
  "stream_generator (Yield chunk generator) = data_event chunk # stream_generator generator"
| "stream_generator Return = [done_event]"
| "stream_generator (Raise e) = [data_event (error_data e), done_event]"

definition create_stream_response :: "json agen \<Rightarrow> response" where
  "create_stream_response generator =
     StreamingResponse (stream_generator generator) (u ''text/event-stream'')"

section \<open>Request schemas: \<open>app/schemas\<close>\<close>

text \<open>
  A request as a handler receives it. The sampling fields (\<open>max_tokens\<close>, \<open>temperature\<close>,
  \<open>top_p\<close>, \<open>n\<close>, \<open>stop\<close>, the penalties, \<open>logit_bias\<close>, \<open>user\<close>) are passed to the
  backend as they are and are the one field \<open>params\<close>.
\<close>

record 'p request =
  model :: pystr
  stream :: "bool option"
  params :: 'p

record 'p completion_request = "'p request" +
  prompt :: pyval

record 'p chat_completion_request = "'p request" +
  messages :: "message list"

text \<open>\<open>all(isinstance(y, int) for y in x)\<close>, which the validator evaluates on lists only.\<close>

fun all_ints :: "pyval \<Rightarrow> bool" where
  "all_ints (VList ys) = list_all is_int ys"
| "all_ints v = False"

text \<open>
  \<open>CompletionRequest.validate_prompt\<close>. The message of its \<open>ValueError\<close> is the word
  \<open>prompt\<close> followed by ten Chinese characters (the elements of the list must be of one
  type), given by their code points.
\<close>

definition validate_prompt :: "pyval \<Rightarrow> exn + pyval" where
  "validate_prompt v =
     (case v of
        VList xs \<Rightarrow>
          (let otherwise =
                 (if list_all is_str xs then Inr v
                  else Inl (ValueError (u ''prompt'' @ [21015, 34920, 20803, 32032, 31867,
                                                        22411, 24517, 39035, 19968, 33268])))
           in if xs = [] then Inr (VStr [])
              else if list_all is_int xs then Inr v
              else if list_all is_list xs
                   then (if list_all all_ints xs then Inr v else otherwise)
                   else otherwise)
      | _ \<Rightarrow> Inr v)"

text \<open>
  \<open>ChatCompletionRequest.validate_messages\<close>. The message of its \<open>ValueError\<close> is the
  word \<open>messages\<close> followed by four Chinese characters (must not be empty).
\<close>

definition validate_messages :: "message list \<Rightarrow> exn + message list" where
  "validate_messages v =
     (if v = [] then Inl (ValueError (u ''messages'' @ [19981, 33021, 20026, 31354]))
      else Inr v)"

text \<open>
  Building the request object runs the field validator; the handler is called with the
  object, so it is not called when the validator raises. The other fields are taken as
  valid. The validator is given the field as the check of its annotated type passes it
  on: for the prompt a string, or a list of strings, of integers or of lists of integers.
  A prompt of no such type, a list of a string and an integer say, is refused by that
  check, which is not part of the source, before the validator runs.
\<close>

definition parse_completion_request ::
  "'p completion_request \<Rightarrow> exn + 'p completion_request" where
  "parse_completion_request raw =
     (case validate_prompt (prompt raw) of
        Inl e \<Rightarrow> Inl e
      | Inr v \<Rightarrow> Inr (raw\<lparr>prompt := v\<rparr>))"

definition parse_chat_completion_request ::
  "'p chat_completion_request \<Rightarrow> exn + 'p chat_completion_request" where
  "parse_chat_completion_request raw =
     (case validate_messages (messages raw) of
        Inl e \<Rightarrow> Inl e
      | Inr v \<Rightarrow> Inr (raw\<lparr>messages := v\<rparr>))"

section \<open>Request handlers: \<open>app/api\<close>\<close>

text \<open>\<open>prompt[0]\<close>: Python raises \<open>IndexError\<close> on an empty list.\<close>

definition getitem0 :: "pyval list \<Rightarrow> exn + pyval" where
  "getitem0 xs =
     (case xs of
        [] \<Rightarrow> Inl (OtherException (u ''IndexError'') (u ''list index out of range''))
      | x # _ \<Rightarrow> Inr x)"

text \<open>
  The prompt step of \<open>create_completion\<close>: it raises, or returns a response from the
  handler at once (\<open>Inr (Inl r)\<close>), or goes on with the prompt for the backend
  (\<open>Inr (Inr p)\<close>).
\<close>

definition process_prompt :: "pyval \<Rightarrow> exn + (response + pyval)" where
  "process_prompt v =
     (case v of
        VList xs \<Rightarrow>
          if list_all is_str xs
          then (if xs \<noteq> []
                then (case getitem0 xs of Inl e \<Rightarrow> Inl e | Inr x \<Rightarrow> Inr (Inr x))
                else Inr (Inr (VStr [])))
          else Inr (Inl (create_error_response (u ''Token lists as prompts are not supported'')
                           (u ''invalid_request_error'') 400 (Some (u ''prompt'')) None))
      | _ \<Rightarrow> Inr (Inr v))"

text \<open>The \<open>try\<close> block of \<open>create_completion\<close>: what it returns, or the exception it raises.\<close>

definition create_completion_try ::
  "'p completion_request \<Rightarrow> 'p factory \<Rightarrow> (exn + response) \<times> 'p factory" where
  "create_completion_try req fs =
     (case get_instance (Some (model req)) fs of
        (Inl e, fs1) \<Rightarrow> (Inl e, fs1)
      | (Inr llm, fs1) \<Rightarrow>
          (case process_prompt (prompt req) of
             Inl e \<Rightarrow> (Inl e, fs1)
           | Inr (Inl early) \<Rightarrow> (Inr early, fs1)
           | Inr (Inr p) \<Rightarrow>
               if stream req = Some True
               then (Inr (create_stream_response
                            (complete_stream_method (klass llm) (params req) p)), fs1)
               else (case complete_method (klass llm) (params req) p of
                       Inl e \<Rightarrow> (Inl e, fs1)
                     | Inr r \<Rightarrow> (Inr (Returned r), fs1))))"

text \<open>The handler: the \<open>try\<close> block under its two \<open>except\<close> clauses.\<close>

definition create_completion ::
  "'p completion_request \<Rightarrow> 'p factory \<Rightarrow> (exn + response) \<times> 'p factory" where
  "create_completion req fs =
     (case create_completion_try req fs of
        (Inr r, fs1) \<Rightarrow> (Inr r, fs1)
      | (Inl (ValueError m), fs1) \<Rightarrow>
          (Inr (create_error_response m (u ''invalid_request_error'') 400 None None), fs1)
      | (Inl (OtherException cls m), fs1) \<Rightarrow>
          (Inr (create_error_response (u ''Completion request failed: '' @ m)
                  (u ''server_error'') 500 None None), fs1))"

definition create_chat_completion_try ::
  "'p chat_completion_request \<Rightarrow> 'p factory \<Rightarrow> (exn + response) \<times> 'p factory" where
  "create_chat_completion_try req fs =
     (case get_instance (Some (model req)) fs of
        (Inl e, fs1) \<Rightarrow> (Inl e, fs1)
      | (Inr llm, fs1) \<Rightarrow>
          if stream req = Some True
          then (Inr (create_stream_response
                       (chat_complete_stream_method (klass llm) (params req) (messages req))),
                fs1)
          else (case chat_complete_method (klass llm) (params req) (messages req) of
                  Inl e \<Rightarrow> (Inl e, fs1)
                | Inr r \<Rightarrow> (Inr (Returned r), fs1)))"

definition create_chat_completion ::
  "'p chat_completion_request \<Rightarrow> 'p factory \<Rightarrow> (exn + response) \<times> 'p factory" where
  "create_chat_completion req fs =
     (case create_chat_completion_try req fs of
        (Inr r, fs1) \<Rightarrow> (Inr r, fs1)
      | (Inl (ValueError m), fs1) \<Rightarrow>
          (Inr (create_error_response m (u ''invalid_request_error'') 400 None None), fs1)
      | (Inl (OtherException cls m), fs1) \<Rightarrow>
          (Inr (create_error_response (u ''Chat completion request failed: '' @ m)
                  (u ''server_error'') 500 None None), fs1))"

text \<open>
  An endpoint: the request object is built, then the handler runs. A request whose
  validator raises is refused before the handler.
\<close>

datatype endpoint_result = Refused exn | Raised exn | Responded response

definition post_completions ::
  "'p completion_request \<Rightarrow> 'p factory \<Rightarrow> endpoint_result \<times> 'p factory" where
  "post_completions raw fs =
     (case parse_completion_request raw of
        Inl e \<Rightarrow> (Refused e, fs)
      | Inr req \<Rightarrow>
          (case create_completion req fs of
             (Inl e, fs1) \<Rightarrow> (Raised e, fs1)
           | (Inr r, fs1) \<Rightarrow> (Responded r, fs1)))"

definition post_chat_completions ::
  "'p chat_completion_request \<Rightarrow> 'p factory \<Rightarrow> endpoint_result \<times> 'p factory" where
  "post_chat_completions raw fs =
     (case parse_chat_completion_request raw of
        Inl e \<Rightarrow> (Refused e, fs)
      | Inr req \<Rightarrow>
          (case create_chat_completion req fs of
             (Inl e, fs1) \<Rightarrow> (Raised e, fs1)
           | (Inr r, fs1) \<Rightarrow> (Responded r, fs1)))"

section \<open>Reading responses and chunks\<close>

text \<open>
  \<open>c["choices"][0]\<close> and a field of it; the text fragment of a completion chunk
  (\<open>choices[0].text\<close>), the content fragment of a chat chunk (\<open>choices[0].delta.content\<close>,
  nothing when the delta has no content), the content of a chat result
  (\<open>choices[0].message.content\<close>), the finish reason, and whether the usage is there.
\<close>

definition first_choice :: "json \<Rightarrow> json option" where
  "first_choice c = (case dict_get c (u ''choices'') of Some v \<Rightarrow> list_first v | None \<Rightarrow> None)"

definition choice_field :: "json \<Rightarrow> pystr \<Rightarrow> json option" where
  "choice_field c k = (case first_choice c of Some ch \<Rightarrow> dict_get ch k | None \<Rightarrow> None)"

definition text_of :: "json \<Rightarrow> pystr" where
  "text_of c = (case choice_field c (u ''text'') of Some (JStr s) \<Rightarrow> s | _ \<Rightarrow> [])"

definition delta_content_of :: "json \<Rightarrow> pystr" where
  "delta_content_of c =
     (case choice_field c (u ''delta'') of
        Some d \<Rightarrow> (case dict_get d (u ''content'') of Some (JStr s) \<Rightarrow> s | _ \<Rightarrow> [])
      | None \<Rightarrow> [])"

definition message_content_of :: "json \<Rightarrow> pystr" where
  "message_content_of c =
     (case choice_field c (u ''message'') of
        Some d \<Rightarrow> (case dict_get d (u ''content'') of Some (JStr s) \<Rightarrow> s | _ \<Rightarrow> [])
      | None \<Rightarrow> [])"

definition finish_reason_of :: "json \<Rightarrow> json option" where
  "finish_reason_of c = choice_field c (u ''finish_reason'')"

definition carries_usage :: "json \<Rightarrow> bool" where
  "carries_usage c = (dict_get c (u ''usage'') \<noteq> None)"

text \<open>
  The finish reasons of a stream as the specification words them: null on every chunk
  but the last, \<open>stop\<close> on the last, which alone carries the usage.
\<close>

definition only_last_chunk_finishes :: "json list \<Rightarrow> bool" where
  "only_last_chunk_finishes chunks =
     (chunks \<noteq> []
      \<and> list_all (\<lambda>c. finish_reason_of c = Some JNull \<and> \<not> carries_usage c) (butlast chunks)
      \<and> finish_reason_of (last chunks) = Some (JStr (u ''stop''))
      \<and> carries_usage (last chunks))"

text \<open>
  The finish reasons as the generators set them: null on every chunk but the last two,
  \<open>stop\<close> on the last word's chunk and on the final chunk, which alone carries the usage.
\<close>

definition last_two_chunks_finish :: "json list \<Rightarrow> bool" where
  "last_two_chunks_finish chunks =
     (2 \<le> length chunks
      \<and> list_all (\<lambda>c. finish_reason_of c = Some JNull) (butlast (butlast chunks))
      \<and> finish_reason_of (last (butlast chunks)) = Some (JStr (u ''stop''))
      \<and> finish_reason_of (last chunks) = Some (JStr (u ''stop''))
      \<and> list_all (\<lambda>c. \<not> carries_usage c) (butlast chunks)
      \<and> carries_usage (last chunks))"

text \<open>
  What a generator does, read off its run: the chunks it yields, and the exception it
  raises, if any.
\<close>

fun yielded :: "'a agen \<Rightarrow> 'a list" where
  "yielded (Yield x g) = x # yielded g"
| "yielded Return = []"
| "yielded (Raise e) = []"

fun raised :: "'a agen \<Rightarrow> exn option" where
  "raised (Yield x g) = raised g"
| "raised Return = None"
| "raised (Raise e) = Some e"

text \<open>
  Two facts that hold of the registry in every state a process can reach: the names
  whose constructor has run are the cached names, each constructed once; and the default
  model, once set, is registered.
\<close>

definition cache_consistent :: "'p factory \<Rightarrow> bool" where
  "cache_consistent fs =
     (distinct (constructed fs) \<and> set (constructed fs) = fst ` set (instances fs))"

definition default_registered :: "'p factory \<Rightarrow> bool" where
  "default_registered fs =
     (case default_model fs of
        None \<Rightarrow> llm_classes fs = []
      | Some d \<Rightarrow> map_of (llm_classes fs) d \<noteq> None)"

text \<open>
  For stating what the handlers answer: the error envelope with a message and a type, the
  answer to a token list, and a backend whose every generation method raises.
\<close>

definition error_envelope :: "pystr \<Rightarrow> pystr \<Rightarrow> json" where
  "error_envelope message type' =
     JDict [(u ''error'', JDict [(u ''message'', JStr message), (u ''type'', JStr type')])]"

definition token_list_error :: response where
  "token_list_error =
     JSONResponse 400
       (JDict [(u ''error'',
                JDict [(u ''message'', JStr (u ''Token lists as prompts are not supported'')),
                       (u ''type'', JStr (u ''invalid_request_error'')),
                       (u ''param'', JStr (u ''prompt''))])])"

definition raising_backend :: "exn \<Rightarrow> 'p backend" where
  "raising_backend e =
     \<lparr>complete_method = (\<lambda>ps p. Inl e),
      complete_stream_method = (\<lambda>ps p. Raise e),
      chat_complete_method = (\<lambda>ps ms. Inl e),
      chat_complete_stream_method = (\<lambda>ps ms. Raise e),
      get_models_method = []\<rparr>"

text \<open>
  An error event as it is sent: the text \<open>data: {"error": {"message": "...", "type":
  "server_error"}}\<close> and two line feeds, whatever stands for the message.
\<close>

definition error_event_prefix :: pystr where
  "error_event_prefix =
     u ''data: {'' @ [34] @ u ''error'' @ [34] @ u '': {'' @ [34] @ u ''message'' @ [34]
       @ u '': '' @ [34]"

definition error_event_suffix :: pystr where
  "error_event_suffix =
     [34] @ u '', '' @ [34] @ u ''type'' @ [34] @ u '': '' @ [34] @ u ''server_error'' @ [34]
       @ u ''}}'' @ [10, 10]"

definition is_error_event :: "pystr \<Rightarrow> bool" where
  "is_error_event ev =
     (length error_event_prefix + length error_event_suffix \<le> length ev
      \<and> take (length error_event_prefix) ev = error_event_prefix
      \<and> drop (length ev - length error_event_suffix) ev = error_event_suffix)"

section \<open>Streaming against the single result\<close>

lemmas json_access =
  first_choice_def choice_field_def text_of_def delta_content_of_def message_content_of_def
  finish_reason_of_def carries_usage_def dict_get_def list_first_def u_def

lemma complete_loop_text:
  "concat (map text_of (complete_stream_loop cid cr n i ws)) = concat (map (\<lambda>w. w @ u '' '') ws)"
  by (induction ws arbitrary: i) (simp_all add: json_access Let_def)

lemma chat_loop_content:
  "concat (map delta_content_of (chat_stream_loop cid cr n i ws)) =
   concat (map (\<lambda>w. w @ u '' '') ws)"
  by (induction ws arbitrary: i) (simp_all add: json_access Let_def)

lemma complete_text: "text_of (complete t1 t2 ps p) = u ''This is a mock response to: '' @ p"
  by (simp add: complete_def create_completion_response_def json_access Let_def)

lemma chat_complete_content:
  "message_content_of (chat_complete t1 t2 ps ms) = response_content_of ms"
  by (simp add: chat_complete_def create_chat_completion_response_def json_access Let_def)

lemma complete_stream_text:
  "concat (map text_of (complete_stream t1 t2 ps p)) =
   concat (map (\<lambda>w. w @ u '' '') (str_split (u ''This is a mock response to: '' @ p)))"
  unfolding complete_stream_def Let_def map_append concat_append complete_loop_text
  by (simp add: json_access)

lemma chat_complete_stream_content:
  "concat (map delta_content_of (chat_complete_stream t1 t2 ps ms)) =
   concat (map (\<lambda>w. w @ u '' '') (str_split (response_content_of ms)))"
  unfolding chat_complete_stream_def Let_def list.map map_append concat_append concat.simps
    chat_loop_content
  by (simp add: json_access)

text \<open>
  C1, as amended. The streamed fragments, joined in the order they are emitted, are the
  words of the text that the single call returns, each followed by one space: the
  stream ends with a space and writes every run of white space of the text as one space.
  This holds for \<open>complete_stream\<close> against \<open>complete\<close> and for \<open>chat_complete_stream\<close>
  against \<open>chat_complete\<close>, whatever the clock reads.
\<close>

theorem stream_fragments_are_spaced_words:
  "concat (map text_of (complete_stream t1 t2 ps p)) =
     concat (map (\<lambda>w. w @ u '' '') (str_split (text_of (complete t3 t4 ps p))))
   \<and> concat (map delta_content_of (chat_complete_stream t1 t2 ps ms)) =
     concat (map (\<lambda>w. w @ u '' '') (str_split (message_content_of (chat_complete t3 t4 ps ms))))"
  by (simp only: complete_stream_text complete_text chat_complete_stream_content
        chat_complete_content)

theorem stream_fragments_are_spaced_words_witness:
  "concat (map text_of (complete_stream 5 5 () (u ''Hi  there''))) =
     u ''This is a mock response to: Hi there ''
   \<and> text_of (complete 5 5 () (u ''Hi  there'')) = u ''This is a mock response to: Hi  there''"
  using stream_fragments_are_spaced_words [of 5 5 "()" "u ''Hi  there''" 5 5]
  by (simp add: complete_text u_def str_split_def isspace_def)

text \<open>
  C1 as the specification states it fails: for the prompt \<open>Hi\<close> the stream spells the
  text with one more space at its end.
\<close>

theorem stream_concat_counterexample:
  "concat (map text_of (complete_stream 0 0 () (u ''Hi''))) \<noteq> text_of (complete 0 0 () (u ''Hi''))"
  unfolding complete_stream_text complete_text
  by (simp add: u_def str_split_def isspace_def)

section \<open>Finish reasons of a stream\<close>

lemma split_from_nonempty: "cur \<noteq> [] \<Longrightarrow> split_from cur s \<noteq> []"
  by (induction s arbitrary: cur) auto

lemma str_split_nonempty: "\<not> isspace c \<Longrightarrow> str_split (c # s) \<noteq> []"
  by (simp add: str_split_def split_from_nonempty)

lemma response_text_words: "str_split (u ''This is a mock response to: '' @ p) \<noteq> []"
  by (simp add: u_def str_split_nonempty isspace_def)

lemma response_content_words: "str_split (response_content_of ms) \<noteq> []"
  by (simp add: response_content_of_def Let_def u_def str_split_nonempty isspace_def)

lemma complete_loop_finish:
  "i + length ws = n \<Longrightarrow> ws \<noteq> [] \<Longrightarrow>
   map finish_reason_of (complete_stream_loop cid cr n i ws) =
   replicate (length ws - 1) (Some JNull) @ [Some (JStr (u ''stop''))]"
proof (induction ws arbitrary: i)
  case Nil
  then show ?case by simp
next
  case (Cons w ws)
  show ?case
  proof (cases ws)
    case Nil
    with Cons.prems show ?thesis by (simp add: json_access Let_def)
  next
    case (Cons w' ws')
    with Cons.prems Cons.IH [of "Suc i"] show ?thesis
      by (simp add: json_access Let_def)
  qed
qed

lemma complete_loop_usage:
  "list_all (\<lambda>c. \<not> carries_usage c) (complete_stream_loop cid cr n i ws)"
  by (induction ws arbitrary: i) (simp_all add: json_access Let_def)

lemma chat_loop_finish:
  "i + length ws = n \<Longrightarrow> ws \<noteq> [] \<Longrightarrow>
   map finish_reason_of (chat_stream_loop cid cr n i ws) =
   replicate (length ws - 1) (Some JNull) @ [Some (JStr (u ''stop''))]"
proof (induction ws arbitrary: i)
  case Nil
  then show ?case by simp
next
  case (Cons w ws)
  show ?case
  proof (cases ws)
    case Nil
    with Cons.prems show ?thesis by (simp add: json_access Let_def)
  next
    case (Cons w' ws')
    with Cons.prems Cons.IH [of "Suc i"] show ?thesis
      by (simp add: json_access Let_def)
  qed
qed

lemma chat_loop_usage:
  "list_all (\<lambda>c. \<not> carries_usage c) (chat_stream_loop cid cr n i ws)"
  by (induction ws arbitrary: i) (simp_all add: json_access Let_def)

lemma last_two_shape:
  assumes fin: "map finish_reason_of body = replicate k (Some JNull) @ [Some (JStr (u ''stop''))]"
      and us: "list_all (\<lambda>c. \<not> carries_usage c) body"
      and f: "finish_reason_of final = Some (JStr (u ''stop''))" "carries_usage final"
  shows "last_two_chunks_finish (body @ [final])"
proof -
  from fin have ne: "body \<noteq> []" by auto
  from fin have "last (map finish_reason_of body) = Some (JStr (u ''stop''))" by simp
  with ne have l: "finish_reason_of (last body) = Some (JStr (u ''stop''))"
    by (simp add: last_map)
  from fin have "butlast (map finish_reason_of body) = replicate k (Some JNull)" by simp
  then have "map finish_reason_of (butlast body) = replicate k (Some JNull)"
    by (simp add: map_butlast)
  then have b: "list_all (\<lambda>c. finish_reason_of c = Some JNull) (butlast body)"
    by (metis (mono_tags, lifting) in_set_replicate list.pred_set image_eqI list.set_map)
  from ne have "2 \<le> length (body @ [final])" by (cases body) auto
  with l b us f show ?thesis
    by (simp add: last_two_chunks_finish_def butlast_append)
qed

lemma last_two_not_only_last: "last_two_chunks_finish cs \<Longrightarrow> \<not> only_last_chunk_finishes cs"
proof
  assume a: "last_two_chunks_finish cs" and b: "only_last_chunk_finishes cs"
  from a have len: "2 \<le> length cs" by (simp add: last_two_chunks_finish_def)
  then have ne: "butlast cs \<noteq> []" by (cases cs rule: rev_cases) auto
  then have "last (butlast cs) \<in> set (butlast cs)" by simp
  with b have "finish_reason_of (last (butlast cs)) = Some JNull"
    by (simp add: only_last_chunk_finishes_def list.pred_set)
  with a show False by (simp add: last_two_chunks_finish_def)
qed

lemma complete_stream_shape: "last_two_chunks_finish (complete_stream t1 t2 ps p)"
proof -
  let ?ws = "str_split (u ''This is a mock response to: '' @ p)"
  have "map finish_reason_of (complete_stream_loop (u ''cmpl-'' @ str_of_int t1) t2 (length ?ws) 0 ?ws)
        = replicate (length ?ws - 1) (Some JNull) @ [Some (JStr (u ''stop''))]"
    by (rule complete_loop_finish) (simp_all add: response_text_words)
  then show ?thesis
    unfolding complete_stream_def Let_def
    by (rule last_two_shape) (simp_all add: complete_loop_usage, simp_all add: json_access usage_dict_def)
qed

lemma chat_complete_stream_shape: "last_two_chunks_finish (chat_complete_stream t1 t2 ps ms)"
proof -
  let ?ws = "str_split (response_content_of ms)"
  let ?cid = "u ''chatcmpl-'' @ str_of_int t1"
  let ?first = "JDict [(u ''id'', JStr ?cid),
                (u ''object'', JStr (u ''chat.completion.chunk'')),
                (u ''created'', JInt t2),
                (u ''model'', JStr model_name),
                (u ''choices'',
                   JList [JDict [(u ''index'', JInt 0),
                                 (u ''delta'', JDict [(u ''role'', JStr (u ''assistant''))]),
                                 (u ''finish_reason'', JNull)]])]"
  have loop: "map finish_reason_of (chat_stream_loop ?cid t2 (length ?ws) 0 ?ws)
        = replicate (length ?ws - 1) (Some JNull) @ [Some (JStr (u ''stop''))]"
    by (rule chat_loop_finish) (simp_all add: response_content_words)
  have first: "finish_reason_of ?first = Some JNull" "\<not> carries_usage ?first"
    by (simp_all add: json_access)
  have "map finish_reason_of (?first # chat_stream_loop ?cid t2 (length ?ws) 0 ?ws)
        = replicate (Suc (length ?ws - 1)) (Some JNull) @ [Some (JStr (u ''stop''))]"
    using loop first(1) by simp
  then have "last_two_chunks_finish ((?first # chat_stream_loop ?cid t2 (length ?ws) 0 ?ws) @
     [JDict [(u ''id'', JStr ?cid),
                 (u ''object'', JStr (u ''chat.completion.chunk'')),
                 (u ''created'', JInt t2),
                 (u ''model'', JStr model_name),
                 (u ''choices'',
                    JList [JDict [(u ''index'', JInt 0),
                                  (u ''delta'', JDict []),
                                  (u ''finish_reason'', JStr (u ''stop''))]]),
                 (u ''usage'', usage_dict (sum_list (map (\<lambda>msg. length (str_split (content msg))) ms)) (length ?ws))]])"
    by (rule last_two_shape) (use first(2) in \<open>simp_all add: chat_loop_usage\<close>, simp_all add: json_access usage_dict_def)
  then show ?thesis
    unfolding chat_complete_stream_def Let_def by simp
qed

text \<open>
  C2, as amended. In every stream of \<open>complete_stream\<close> and of \<open>chat_complete_stream\<close>
  the finish reason is null on every chunk but the last two and is \<open>stop\<close> on both of
  these, the chunk of the last word and the final chunk: one more chunk follows the first
  chunk whose finish reason is set. The final chunk alone carries the usage.
\<close>

theorem stream_finish_reasons:
  "last_two_chunks_finish (complete_stream t1 t2 ps p)
   \<and> last_two_chunks_finish (chat_complete_stream t1 t2 ps ms)"
  by (simp only: complete_stream_shape chat_complete_stream_shape)

theorem stream_finish_reasons_witness:
  "last_two_chunks_finish (complete_stream 0 0 () (u ''Hi''))
   \<and> last_two_chunks_finish (chat_complete_stream 0 0 () [])"
  by (rule stream_finish_reasons)

text \<open>
  C2 as the specification states it fails: in the stream for the prompt \<open>Hi\<close> the chunk
  before the last one, which carries the word \<open>Hi\<close>, already has the finish reason
  \<open>stop\<close>.
\<close>

theorem single_terminal_chunk_counterexample:
  "\<not> only_last_chunk_finishes (complete_stream 0 0 () (u ''Hi''))"
  by (rule last_two_not_only_last) (rule complete_stream_shape)

section \<open>The stream framer ends every stream\<close>

lemma str_of_nat_digits: "set (str_of_nat n) \<subseteq> {48..57}"
proof (induction n rule: str_of_nat.induct)
  case (1 n)
  show ?case
  proof (cases "n < 10")
    case True
    then show ?thesis by (subst str_of_nat.simps) auto
  next
    case False
    have "n mod 10 < 10" by simp
    then have "48 + n mod 10 \<in> {48..57}" by auto
    with False 1 show ?thesis by (subst str_of_nat.simps) auto
  qed
qed

lemma str_of_nat_nonempty: "str_of_nat n \<noteq> []"
  by (subst str_of_nat.simps) simp

lemma str_of_nat_hd: "hd (str_of_nat n) \<in> {48..57}"
  using str_of_nat_digits [of n] str_of_nat_nonempty [of n] hd_in_set by blast

lemma str_of_int_hd: "str_of_int i \<noteq> [] \<and> hd (str_of_int i) \<noteq> 68 \<and> hd (str_of_int i) \<noteq> 91"
  using str_of_nat_hd [of "nat i"] str_of_nat_nonempty [of "nat i"]
  by (auto simp: str_of_int_def)

lemma json_dumps_hd: "json_dumps v \<noteq> [] \<and> hd (json_dumps v) \<noteq> 68"
  by (cases v) (simp_all add: u_def encode_str_def str_of_int_hd)

lemma join_hd: "x \<noteq> [] \<Longrightarrow> join sep (x # xs) \<noteq> [] \<and> hd (join sep (x # xs)) = hd x"
  by (cases xs) simp_all

lemma json_dumps_not_done: "json_dumps v \<noteq> u ''[DONE]''"
proof (cases v)
  case (JInt i)
  with str_of_int_hd [of i] show ?thesis by (auto simp: u_def)
next
  case (JList xs)
  show ?thesis
  proof (cases xs)
    case Nil
    with JList show ?thesis by (simp add: u_def)
  next
    case (Cons x rest)
    from json_dumps_hd [of x]
    have "hd (join (u '', '') (json_dumps x # map json_dumps rest)) \<noteq> 68"
      by (simp add: join_hd)
    then have "join (u '', '') (json_dumps x # map json_dumps rest) @ [93] \<noteq> [68, 79, 78, 69, 93]"
      by (cases "join (u '', '') (json_dumps x # map json_dumps rest)") auto
    with JList Cons show ?thesis by (simp add: u_def)
  qed
qed (simp_all add: u_def encode_str_def)

lemma data_event_not_done: "data_event c \<noteq> done_event"
  using json_dumps_not_done [of c] by (simp add: data_event_def done_event_def u_def)

lemma stream_generator_closed_form:
  "stream_generator g =
   map data_event (yielded g) @
   (case raised g of None \<Rightarrow> [done_event] | Some e \<Rightarrow> [data_event (error_data e), done_event])"
  by (induction g) simp_all

lemma stream_generator_last: "last (stream_generator g) = done_event"
  by (induction g) (simp_all, (case_tac g; simp))

lemma stream_generator_count: "count_list (stream_generator g) done_event = 1"
  by (induction g) (simp_all add: data_event_not_done)


lemma error_event_text:
  "data_event (error_data e) =
   error_event_prefix @ concat (map escape_char (exn_str e)) @ error_event_suffix"
  by (simp add: data_event_def error_data_def encode_str_def escape_char_def
        error_event_prefix_def error_event_suffix_def u_def)

lemma between_is_error_event: "is_error_event (error_event_prefix @ mid @ error_event_suffix)"
  by (simp add: is_error_event_def)

lemma error_event_is_error_event: "is_error_event (data_event (error_data e))"
  by (simp only: error_event_text between_is_error_event)

lemma done_is_no_error_event: "\<not> is_error_event done_event"
  by (simp add: is_error_event_def done_event_def error_event_prefix_def
        error_event_suffix_def u_def)

lemma dict_event_starts:
  "\<exists>t. data_event (JDict ((k, v) # rest)) = u ''data: {'' @ encode_str k @ t"
  by (cases rest) (simp_all add: data_event_def u_def)

lemma id_chunk_is_no_error_event:
  "\<not> is_error_event (data_event (JDict ((u ''id'', v) # rest)))"
proof
  let ?ev = "data_event (JDict ((u ''id'', v) # rest))"
  assume "is_error_event ?ev"
  then have tk: "take (length error_event_prefix) ?ev = error_event_prefix"
    by (simp add: is_error_event_def)
  have "take (length error_event_prefix) ?ev ! 8 = ?ev ! 8"
    by (rule nth_take) (simp add: error_event_prefix_def u_def)
  with tk have eq: "?ev ! 8 = error_event_prefix ! 8" by simp
  from dict_event_starts [of "u ''id''" v rest] obtain t
    where t: "?ev = u ''data: {'' @ encode_str (u ''id'') @ t" by blast
  from eq show False
    unfolding t by (simp add: encode_str_def escape_char_def error_event_prefix_def u_def)
qed

lemma agen_of_list_run: "yielded (agen_of_list xs) = xs \<and> raised (agen_of_list xs) = None"
  by (induction xs) simp_all

lemma error_event_count:
  "list_all (\<lambda>c. \<not> is_error_event (data_event c)) (yielded g) \<Longrightarrow>
   length (filter is_error_event (stream_generator g)) =
   (case raised g of None \<Rightarrow> 0 | Some e \<Rightarrow> 1)"
  by (induction g) (simp_all add: error_event_is_error_event done_is_no_error_event)

lemma complete_loop_ids:
  "list_all (\<lambda>c. \<not> is_error_event (data_event c)) (complete_stream_loop cid cr n i ws)"
  by (induction ws arbitrary: i) (simp_all add: Let_def id_chunk_is_no_error_event)

lemma chat_loop_ids:
  "list_all (\<lambda>c. \<not> is_error_event (data_event c)) (chat_stream_loop cid cr n i ws)"
  by (induction ws arbitrary: i) (simp_all add: Let_def id_chunk_is_no_error_event)

lemma complete_stream_ids:
  "list_all (\<lambda>c. \<not> is_error_event (data_event c)) (complete_stream t1 t2 ps p)"
  by (simp add: complete_stream_def Let_def complete_loop_ids id_chunk_is_no_error_event)

lemma chat_complete_stream_ids:
  "list_all (\<lambda>c. \<not> is_error_event (data_event c)) (chat_complete_stream t1 t2 ps ms)"
  by (simp add: chat_complete_stream_def Let_def chat_loop_ids id_chunk_is_no_error_event)

text \<open>
  C5, as amended. The response that \<open>create_stream_response\<close> returns carries one data
  event for each chunk of the backend's generator, in order, and after them the sentinel
  alone if the generator returns, or the error event for the exception and then the
  sentinel if it raises. The sentinel is the last event and occurs exactly once. The
  event for an exception is an error event and the sentinel is none. When no chunk of the
  generator is itself sent as an error event, the stream holds exactly one error event
  if the generator raises and none otherwise; no chunk of \<open>complete_stream\<close> or of
  \<open>chat_complete_stream\<close> is sent as an error event.
\<close>

theorem stream_response_sentinel_and_error:
  "(\<exists>events.
      create_stream_response g = StreamingResponse events (u ''text/event-stream'')
      \<and> last events = done_event
      \<and> count_list events done_event = 1
      \<and> events =
          map data_event (yielded g) @
          (case raised g of
             None \<Rightarrow> [done_event]
           | Some e \<Rightarrow> [data_event (error_data e), done_event])
      \<and> (list_all (\<lambda>c. \<not> is_error_event (data_event c)) (yielded g) \<longrightarrow>
            length (filter is_error_event events) = (case raised g of None \<Rightarrow> 0 | Some e \<Rightarrow> 1)))
   \<and> (\<forall>e. is_error_event (data_event (error_data e)))
   \<and> \<not> is_error_event done_event
   \<and> list_all (\<lambda>c. \<not> is_error_event (data_event c)) (complete_stream t1 t2 ps p)
   \<and> list_all (\<lambda>c. \<not> is_error_event (data_event c)) (chat_complete_stream t1 t2 ps ms)"
proof -
  have "create_stream_response g = StreamingResponse (stream_generator g) (u ''text/event-stream'')"
    by (simp add: create_stream_response_def)
  moreover have "last (stream_generator g) = done_event" by (rule stream_generator_last)
  moreover have "count_list (stream_generator g) done_event = 1" by (rule stream_generator_count)
  moreover note stream_generator_closed_form [of g] error_event_count [of g]
  ultimately have "\<exists>events.
      create_stream_response g = StreamingResponse events (u ''text/event-stream'')
      \<and> last events = done_event
      \<and> count_list events done_event = 1
      \<and> events =
          map data_event (yielded g) @
          (case raised g of
             None \<Rightarrow> [done_event]
           | Some e \<Rightarrow> [data_event (error_data e), done_event])
      \<and> (list_all (\<lambda>c. \<not> is_error_event (data_event c)) (yielded g) \<longrightarrow>
            length (filter is_error_event events) = (case raised g of None \<Rightarrow> 0 | Some e \<Rightarrow> 1))"
    by blast
  then show ?thesis
    by (simp only: error_event_is_error_event done_is_no_error_event complete_stream_ids
          chat_complete_stream_ids simp_thms)
qed

theorem stream_response_sentinel_and_error_witness:
  "create_stream_response
     (Yield (JDict [(u ''id'', JStr (u ''x''))])
        (Raise (OtherException (u ''RuntimeError'') (u ''boom'')))) =
   StreamingResponse
     [data_event (JDict [(u ''id'', JStr (u ''x''))]),
      u ''data: {'' @ [34] @ u ''error'' @ [34] @ u '': {'' @ [34] @ u ''message'' @ [34] @ u '': ''
        @ [34] @ u ''boom'' @ [34] @ u '', '' @ [34] @ u ''type'' @ [34] @ u '': '' @ [34]
        @ u ''server_error'' @ [34] @ u ''}}'' @ [10, 10],
      u ''data: [DONE]'' @ [10, 10]]
     (u ''text/event-stream'')
   \<and> length (filter is_error_event
        (stream_generator
           (Yield (JDict [(u ''id'', JStr (u ''x''))])
              (Raise (OtherException (u ''RuntimeError'') (u ''boom'')))))) = 1
   \<and> length (filter is_error_event
        (stream_generator (agen_of_list [JDict [(u ''id'', JStr (u ''x''))]]))) = 0"
proof -
  let ?c = "JDict [(u ''id'', JStr (u ''x''))]"
  let ?g = "Yield ?c (Raise (OtherException (u ''RuntimeError'') (u ''boom'')))"
  have c: "\<not> is_error_event (data_event ?c)" by (rule id_chunk_is_no_error_event)
  from stream_response_sentinel_and_error [of ?g 0 0 "()" "[]" "[]"] obtain events
    where "create_stream_response ?g = StreamingResponse events (u ''text/event-stream'')"
      and "list_all (\<lambda>c. \<not> is_error_event (data_event c)) (yielded ?g) \<longrightarrow>
           length (filter is_error_event events) = (case raised ?g of None \<Rightarrow> 0 | Some e \<Rightarrow> 1)"
    by blast
  with c have 1: "length (filter is_error_event (stream_generator ?g)) = 1"
    by (simp add: create_stream_response_def)
  from stream_response_sentinel_and_error [of "agen_of_list [?c]" 0 0 "()" "[]" "[]"]
  obtain events'
    where "create_stream_response (agen_of_list [?c]) =
           StreamingResponse events' (u ''text/event-stream'')"
      and "list_all (\<lambda>c. \<not> is_error_event (data_event c)) (yielded (agen_of_list [?c])) \<longrightarrow>
           length (filter is_error_event events') =
           (case raised (agen_of_list [?c]) of None \<Rightarrow> 0 | Some e \<Rightarrow> 1)"
    by blast
  with c have 0: "length (filter is_error_event (stream_generator (agen_of_list [?c]))) = 0"
    by (simp add: create_stream_response_def)
  have "create_stream_response ?g =
        StreamingResponse
          [data_event ?c,
           u ''data: {'' @ [34] @ u ''error'' @ [34] @ u '': {'' @ [34] @ u ''message'' @ [34]
             @ u '': '' @ [34] @ u ''boom'' @ [34] @ u '', '' @ [34] @ u ''type'' @ [34]
             @ u '': '' @ [34] @ u ''server_error'' @ [34] @ u ''}}'' @ [10, 10],
           u ''data: [DONE]'' @ [10, 10]]
          (u ''text/event-stream'')"
    by (simp add: create_stream_response_def data_event_def done_event_def error_data_def
          encode_str_def escape_char_def u_def)
  with 1 0 show ?thesis by simp
qed

text \<open>
  C5 as the specification states it fails for the count of error events: the framer
  sends every chunk as it is, so a generator that yields a dictionary of the error shape
  and then raises gives a stream with two error events before the sentinel.
\<close>

theorem two_error_events_counterexample:
  "create_stream_response
     (Yield (error_data (ValueError (u ''boom''))) (Raise (ValueError (u ''boom'')))) =
   StreamingResponse
     [data_event (error_data (ValueError (u ''boom''))),
      data_event (error_data (ValueError (u ''boom''))),
      done_event]
     (u ''text/event-stream'')
   \<and> length (filter is_error_event
        (stream_generator
           (Yield (error_data (ValueError (u ''boom''))) (Raise (ValueError (u ''boom'')))))) = 2"
  by (simp add: create_stream_response_def error_event_is_error_event done_is_no_error_event)

section \<open>The registry caches one instance for each name\<close>

lemma map_of_None_keys: "map_of al k = None \<longleftrightarrow> k \<notin> fst ` set al"
  by (simp add: map_of_eq_None_iff)

lemma consistent_initial: "cache_consistent initial_factory"
  by (simp add: cache_consistent_def initial_factory_def)

lemma consistent_register: "cache_consistent fs \<Longrightarrow> cache_consistent (register n c d fs)"
  by (simp add: cache_consistent_def register_def Let_def)

lemma consistent_construct:
  "cache_consistent fs \<Longrightarrow> map_of (instances fs) n = None \<Longrightarrow>
   cache_consistent (snd (construct n c fs))"
  by (auto simp: cache_consistent_def construct_def Let_def dom_update map_of_None_keys)

lemma construct_keeps:
  "map_of (instances fs) n = Some i \<Longrightarrow> n' \<noteq> n \<Longrightarrow>
   map_of (instances (snd (construct n' c fs))) n = Some i"
  by (simp add: construct_def Let_def update_conv')

lemma construct_stores:
  "map_of (instances (snd (construct n c fs))) n = Some (fst (construct n c fs))"
  by (simp add: construct_def Let_def update_conv')

lemma instance_for_cached:
  "map_of (instances fs) n = Some i \<Longrightarrow> instance_for n fs = (Inr i, fs)"
  by (simp add: instance_for_def)

lemma instance_for_consistent:
  assumes "cache_consistent fs"
  shows "cache_consistent (snd (instance_for n fs))"
proof (cases "map_of (instances fs) n")
  case (Some i)
  with assms show ?thesis by (simp add: instance_for_def)
next
  case None
  show ?thesis
  proof (cases "map_of (llm_classes fs) n")
    case None
    with \<open>map_of (instances fs) n = None\<close> assms show ?thesis by (simp add: instance_for_def)
  next
    case (Some c)
    with \<open>map_of (instances fs) n = None\<close> consistent_construct [OF assms, of n c]
    show ?thesis by (simp add: instance_for_def case_prod_beta)
  qed
qed

lemma instance_for_keeps:
  assumes "map_of (instances fs) n = Some i"
  shows "map_of (instances (snd (instance_for n' fs))) n = Some i"
proof (cases "map_of (instances fs) n'")
  case (Some j)
  with assms show ?thesis by (simp add: instance_for_def)
next
  case None
  with assms have ne: "n' \<noteq> n" by auto
  show ?thesis
  proof (cases "map_of (llm_classes fs) n'")
    case None
    with \<open>map_of (instances fs) n' = None\<close> assms show ?thesis by (simp add: instance_for_def)
  next
    case (Some c)
    with \<open>map_of (instances fs) n' = None\<close> construct_keeps [OF assms ne, of c]
    show ?thesis by (simp add: instance_for_def case_prod_beta)
  qed
qed

lemma instance_for_registered:
  assumes "map_of (llm_classes fs) n \<noteq> None"
  shows "\<exists>i fs1. instance_for n fs = (Inr i, fs1) \<and> map_of (instances fs1) n = Some i"
proof (cases "map_of (instances fs) n")
  case (Some i)
  then show ?thesis by (simp add: instance_for_def)
next
  case None
  from assms obtain c where c: "map_of (llm_classes fs) n = Some c" by auto
  obtain i fs1 where k: "construct n c fs = (i, fs1)" by (cases "construct n c fs")
  with construct_stores [of n c fs] have "map_of (instances fs1) n = Some i" by simp
  with None c k show ?thesis by (simp add: instance_for_def)
qed

lemma get_instance_consistent:
  "cache_consistent fs \<Longrightarrow> cache_consistent (snd (get_instance m fs))"
  by (auto simp: get_instance_def instance_for_consistent split: option.splits)

lemma get_instance_keeps:
  "map_of (instances fs) n = Some i \<Longrightarrow> map_of (instances (snd (get_instance m fs))) n = Some i"
  by (auto simp: get_instance_def instance_for_keeps split: option.splits)

lemma loop_consistent:
  "cache_consistent fs \<Longrightarrow> cache_consistent (snd (get_available_models_loop cs ms fs))"
proof (induction cs arbitrary: ms fs)
  case Nil
  then show ?case by simp
next
  case (Cons nc cs)
  obtain n c where nc: "nc = (n, c)" by (cases nc)
  show ?case
  proof (cases "map_of (instances fs) n")
    case None
    obtain i fs1 where k: "construct n c fs = (i, fs1)" by (cases "construct n c fs")
    with consistent_construct [OF Cons.prems None, of c] have "cache_consistent fs1" by simp
    with Cons.IH nc None k show ?thesis by (simp add: Let_def)
  next
    case (Some i)
    with Cons nc show ?thesis by (simp add: Let_def)
  qed
qed

lemma loop_keeps:
  "map_of (instances fs) n = Some i \<Longrightarrow>
   map_of (instances (snd (get_available_models_loop cs ms fs))) n = Some i"
proof (induction cs arbitrary: ms fs)
  case Nil
  then show ?case by simp
next
  case (Cons nc cs)
  obtain n' c where nc: "nc = (n', c)" by (cases nc)
  show ?case
  proof (cases "map_of (instances fs) n'")
    case None
    with Cons.prems have ne: "n' \<noteq> n" by auto
    obtain j fs1 where k: "construct n' c fs = (j, fs1)" by (cases "construct n' c fs")
    with construct_keeps [OF Cons.prems ne, of c] have "map_of (instances fs1) n = Some i" by simp
    with Cons.IH nc None k show ?thesis by (simp add: Let_def)
  next
    case (Some j)
    with Cons nc show ?thesis by (simp add: Let_def)
  qed
qed

lemma after_call_consistent: "cache_consistent fs \<Longrightarrow> cache_consistent (after_call call fs)"
  by (cases call)
     (simp_all add: consistent_register get_instance_consistent loop_consistent
        get_available_models_def)

lemma after_call_keeps:
  "map_of (instances fs) n = Some i \<Longrightarrow> map_of (instances (after_call call fs)) n = Some i"
  by (cases call)
     (simp_all add: get_instance_keeps loop_keeps get_available_models_def register_def Let_def)

lemma after_calls_consistent: "cache_consistent fs \<Longrightarrow> cache_consistent (after_calls calls fs)"
  by (induction calls arbitrary: fs) (simp_all add: after_call_consistent)

lemma after_calls_keeps:
  "map_of (instances fs) n = Some i \<Longrightarrow> map_of (instances (after_calls calls fs)) n = Some i"
  by (induction calls arbitrary: fs) (simp_all add: after_call_keeps)

lemma reachable_consistent: "cache_consistent (after_calls calls initial_factory)"
  by (simp add: after_calls_consistent consistent_initial)

lemma consistent_count_le: "cache_consistent fs \<Longrightarrow> count_list (constructed fs) n \<le> 1"
proof -
  have "distinct xs \<Longrightarrow> count_list xs n \<le> 1" for xs :: "pystr list"
    by (induction xs) auto
  then show "cache_consistent fs \<Longrightarrow> count_list (constructed fs) n \<le> 1"
    by (simp add: cache_consistent_def)
qed

lemma consistent_count_cached:
  assumes "cache_consistent fs" "map_of (instances fs) n = Some i"
  shows "count_list (constructed fs) n = 1"
proof -
  from assms(2) have "n \<in> fst ` set (instances fs)"
    by (metis map_of_None_keys option.distinct(1))
  with assms(1) have "n \<in> set (constructed fs)" by (simp add: cache_consistent_def)
  then have "count_list (constructed fs) n \<noteq> 0" by (simp add: count_list_0_iff)
  with consistent_count_le [OF assms(1), of n] show ?thesis by simp
qed

lemma after_calls_append: "after_calls (xs @ ys) fs = after_calls ys (after_calls xs fs)"
  by (induction xs arbitrary: fs) simp_all

text \<open>
  C4. Take any calls on the registry since the process started (registrations,
  resolutions, model listings, in any order) and a model name that is registered after
  them. The constructor for the name has run at most once so far; \<open>get_instance\<close> of the
  name returns an instance; and after any further calls, re-registration of the name
  included, \<open>get_instance\<close> of the name returns that same instance, changes nothing, and
  the constructor for the name has run exactly once.
\<close>

theorem get_instance_singleton:
  assumes reg: "map_of (llm_classes (after_calls calls0 initial_factory)) n \<noteq> None"
  shows "count_list (constructed (after_calls calls0 initial_factory)) n \<le> 1
         \<and> (\<exists>i fs1. get_instance (Some n) (after_calls calls0 initial_factory) = (Inr i, fs1)
               \<and> (\<forall>calls. get_instance (Some n) (after_calls calls fs1)
                            = (Inr i, after_calls calls fs1)
                          \<and> count_list (constructed (after_calls calls fs1)) n = 1))"
proof -
  let ?fs = "after_calls calls0 initial_factory"
  have c0: "cache_consistent ?fs" by (rule reachable_consistent)
  from instance_for_registered [OF reg] obtain i fs1
    where g: "instance_for n ?fs = (Inr i, fs1)" and st: "map_of (instances fs1) n = Some i"
    by blast
  from g have g': "get_instance (Some n) ?fs = (Inr i, fs1)" by (simp add: get_instance_def)
  from instance_for_consistent [OF c0, of n] g have c1: "cache_consistent fs1" by simp
  have "get_instance (Some n) (after_calls calls fs1) = (Inr i, after_calls calls fs1)
        \<and> count_list (constructed (after_calls calls fs1)) n = 1" for calls
  proof -
    from after_calls_keeps [OF st]
    have k: "map_of (instances (after_calls calls fs1)) n = Some i" .
    from after_calls_consistent [OF c1] have "cache_consistent (after_calls calls fs1)" .
    with k show ?thesis
      by (simp add: get_instance_def instance_for_cached consistent_count_cached)
  qed
  with g' consistent_count_le [OF c0] show ?thesis by blast
qed

theorem get_instance_singleton_witness:
  "\<exists>i fs1.
     get_instance (Some (u ''mock-gpt''))
       (after_calls [Register (u ''mock-gpt'') (MockLLM 0 0 1672531200 :: unit backend) True] initial_factory)
       = (Inr i, fs1)
     \<and> (\<forall>calls. get_instance (Some (u ''mock-gpt'')) (after_calls calls fs1)
                  = (Inr i, after_calls calls fs1)
                \<and> count_list (constructed (after_calls calls fs1)) (u ''mock-gpt'') = 1)"
  using get_instance_singleton
          [of "[Register (u ''mock-gpt'') (MockLLM 0 0 1672531200 :: unit backend) True]" "u ''mock-gpt''"]
  by (simp add: register_def initial_factory_def Let_def)

lemma construct_classes:
  "llm_classes (snd (construct n c fs)) = llm_classes fs
   \<and> default_model (snd (construct n c fs)) = default_model fs"
  by (simp add: construct_def Let_def)

lemma instance_for_classes:
  "llm_classes (snd (instance_for n fs)) = llm_classes fs
   \<and> default_model (snd (instance_for n fs)) = default_model fs"
  by (simp add: instance_for_def construct_classes case_prod_beta split: option.splits)

lemma get_instance_classes:
  "llm_classes (snd (get_instance m fs)) = llm_classes fs
   \<and> default_model (snd (get_instance m fs)) = default_model fs"
  by (simp add: get_instance_def instance_for_classes split: option.splits)

lemma loop_classes:
  "llm_classes (snd (get_available_models_loop cs ms fs)) = llm_classes fs
   \<and> default_model (snd (get_available_models_loop cs ms fs)) = default_model fs"
proof (induction cs arbitrary: ms fs)
  case Nil
  then show ?case by simp
next
  case (Cons nc cs)
  obtain n c where nc: "nc = (n, c)" by (cases nc)
  show ?case
  proof (cases "map_of (instances fs) n")
    case None
    with Cons.IH [of _ "snd (construct n c fs)"] nc construct_classes [of n c fs]
    show ?thesis by (simp add: Let_def case_prod_beta)
  next
    case (Some i)
    with Cons.IH nc show ?thesis by (simp add: Let_def)
  qed
qed

lemma register_default: "default_registered fs \<Longrightarrow> default_registered (register n c d fs)"
  by (auto simp: default_registered_def register_def Let_def update_conv' split: option.splits)

lemma register_nonempty: "llm_classes (register n c d fs) \<noteq> []"
  by (simp add: register_def Let_def)

lemma after_call_default: "default_registered fs \<Longrightarrow> default_registered (after_call call fs)"
proof (cases call)
  case (Register n c d)
  then show "default_registered fs \<Longrightarrow> default_registered (after_call call fs)"
    by (simp add: register_default)
next
  case (GetInstance m)
  with get_instance_classes [of m fs]
  show "default_registered fs \<Longrightarrow> default_registered (after_call call fs)"
    by (simp add: default_registered_def split: option.splits)
next
  case GetAvailableModels
  with loop_classes [of "llm_classes fs" "[]" fs]
  show "default_registered fs \<Longrightarrow> default_registered (after_call call fs)"
    by (simp add: default_registered_def get_available_models_def split: option.splits)
qed

lemma after_call_nonempty:
  "llm_classes fs \<noteq> [] \<or> is_register call \<Longrightarrow> llm_classes (after_call call fs) \<noteq> []"
  by (cases call)
     (simp_all add: register_nonempty get_instance_classes loop_classes get_available_models_def)

lemma after_calls_default: "default_registered fs \<Longrightarrow> default_registered (after_calls calls fs)"
  by (induction calls arbitrary: fs) (simp_all add: after_call_default)

lemma after_calls_nonempty:
  "llm_classes fs \<noteq> [] \<or> list_ex is_register calls \<Longrightarrow> llm_classes (after_calls calls fs) \<noteq> []"
proof (induction calls arbitrary: fs)
  case Nil
  then show ?case by simp
next
  case (Cons call calls)
  show ?case
  proof (cases "llm_classes fs \<noteq> [] \<or> is_register call")
    case True
    then have "llm_classes (after_call call fs) \<noteq> []" by (rule after_call_nonempty)
    with Cons.IH show ?thesis by simp
  next
    case False
    with Cons.prems have "list_ex is_register calls" by simp
    with Cons.IH show ?thesis by simp
  qed
qed

lemma unregistered_stays_initial:
  "\<not> list_ex is_register calls \<Longrightarrow> after_calls calls initial_factory = initial_factory"
proof (induction calls)
  case Nil
  then show ?case by simp
next
  case (Cons call calls)
  then have "after_call call initial_factory = initial_factory"
    by (cases call)
       (simp_all add: get_instance_def instance_for_def get_available_models_def
          initial_factory_def split: option.splits)
  with Cons show ?case by simp
qed

text \<open>
  C6. While no registration has occurred, \<open>get_instance(None)\<close> raises the
  \<open>ValueError\<close> "No default model registered". Once a registration has occurred there is
  a default model, and \<open>get_instance(None)\<close> and \<open>get_instance\<close> of the default name
  return the same instance, whichever is called first.
\<close>

theorem default_model_resolution:
  "(\<not> list_ex is_register calls \<longrightarrow>
      get_instance None (after_calls calls initial_factory) =
        (Inl (ValueError (u ''No default model registered'')), after_calls calls initial_factory))
   \<and> (list_ex is_register calls \<longrightarrow>
        (\<exists>d i fs1. default_model (after_calls calls initial_factory) = Some d
           \<and> get_instance None (after_calls calls initial_factory) = (Inr i, fs1)
           \<and> get_instance (Some d) (after_calls calls initial_factory) = (Inr i, fs1)
           \<and> get_instance None fs1 = (Inr i, fs1)
           \<and> get_instance (Some d) fs1 = (Inr i, fs1)))"
proof (intro conjI impI)
  assume "\<not> list_ex is_register calls"
  then have "after_calls calls initial_factory = initial_factory"
    by (rule unregistered_stays_initial)
  then show "get_instance None (after_calls calls initial_factory) =
        (Inl (ValueError (u ''No default model registered'')), after_calls calls initial_factory)"
    by (simp add: get_instance_def initial_factory_def)
next
  let ?fs = "after_calls calls initial_factory"
  assume "list_ex is_register calls"
  then have ne: "llm_classes ?fs \<noteq> []" by (simp add: after_calls_nonempty)
  have "default_registered initial_factory"
    by (simp add: default_registered_def initial_factory_def)
  then have dr: "default_registered ?fs" by (rule after_calls_default)
  with ne obtain d where d: "default_model ?fs = Some d" and reg: "map_of (llm_classes ?fs) d \<noteq> None"
    by (auto simp: default_registered_def split: option.splits)
  from instance_for_registered [OF reg] obtain i fs1
    where g: "instance_for d ?fs = (Inr i, fs1)" and st: "map_of (instances fs1) d = Some i"
    by blast
  from instance_for_classes [of d ?fs] g d have d1: "default_model fs1 = Some d" by simp
  from st have c: "instance_for d fs1 = (Inr i, fs1)" by (rule instance_for_cached)
  from d g d1 c show "\<exists>d i fs1. default_model ?fs = Some d
           \<and> get_instance None ?fs = (Inr i, fs1)
           \<and> get_instance (Some d) ?fs = (Inr i, fs1)
           \<and> get_instance None fs1 = (Inr i, fs1)
           \<and> get_instance (Some d) fs1 = (Inr i, fs1)"
    by (simp add: get_instance_def)
qed

theorem default_model_resolution_witness:
  "get_instance None (after_calls [GetAvailableModels] (initial_factory :: unit factory)) =
     (Inl (ValueError (u ''No default model registered'')), initial_factory)
   \<and> (\<exists>i fs1.
        get_instance None
          (after_calls [Register (u ''mock-gpt'') (MockLLM 0 0 1672531200) True] (initial_factory :: unit factory))
          = (Inr i, fs1)
        \<and> get_instance (Some (u ''mock-gpt''))
            (after_calls [Register (u ''mock-gpt'') (MockLLM 0 0 1672531200) True] initial_factory)
          = (Inr i, fs1)
        \<and> get_instance None fs1 = (Inr i, fs1)
        \<and> get_instance (Some (u ''mock-gpt'')) fs1 = (Inr i, fs1))"
  using default_model_resolution [of "[GetAvailableModels :: unit factory_call]"]
        default_model_resolution
          [of "[Register (u ''mock-gpt'') (MockLLM 0 0 1672531200 :: unit backend) True]"]
  by (simp add: register_def initial_factory_def get_available_models_def Let_def)

section \<open>The handlers answer every failure with an envelope\<close>

lemma error_response_plain:
  "create_error_response m t s None None =
   JSONResponse s (JDict [(u ''error'', JDict [(u ''message'', JStr m), (u ''type'', JStr t)])])"
  by (simp add: create_error_response_def)

lemma error_response_param:
  "p \<noteq> [] \<Longrightarrow> create_error_response m t s (Some p) None =
   JSONResponse s (JDict [(u ''error'',
      JDict [(u ''message'', JStr m), (u ''type'', JStr t), (u ''param'', JStr p)])])"
  by (simp add: create_error_response_def u_def)

lemma create_completion_returns: "\<exists>r fs1. create_completion req fs = (Inr r, fs1)"
  by (simp add: create_completion_def split: prod.splits sum.splits exn.splits)

lemma create_chat_completion_returns: "\<exists>r fs1. create_chat_completion req fs = (Inr r, fs1)"
  by (simp add: create_chat_completion_def split: prod.splits sum.splits exn.splits)

lemma process_prompt_never_raises: "process_prompt v \<noteq> Inl e"
  by (cases v) (auto simp: process_prompt_def getitem0_def split: list.splits)

lemma get_instance_raises_ValueError:
  "get_instance m fs = (Inl e, fs1) \<Longrightarrow> \<exists>msg. e = ValueError msg"
  by (auto simp: get_instance_def instance_for_def case_prod_beta split: option.splits)

lemma completion_registry_failure:
  assumes "get_instance (Some (model req)) fs = (Inl e, fs1)"
  shows "create_completion req fs =
         (Inr (JSONResponse 400 (error_envelope (exn_str e) (u ''invalid_request_error''))), fs1)"
proof -
  from get_instance_raises_ValueError [OF assms] obtain m where "e = ValueError m" by blast
  with assms show ?thesis
    by (simp add: create_completion_def create_completion_try_def error_response_plain
          error_envelope_def)
qed

lemma chat_registry_failure:
  assumes "get_instance (Some (model req)) fs = (Inl e, fs1)"
  shows "create_chat_completion req fs =
         (Inr (JSONResponse 400 (error_envelope (exn_str e) (u ''invalid_request_error''))), fs1)"
proof -
  from get_instance_raises_ValueError [OF assms] obtain m where "e = ValueError m" by blast
  with assms show ?thesis
    by (simp add: create_chat_completion_def create_chat_completion_try_def
          error_response_plain error_envelope_def)
qed

lemma completion_backend_failure:
  assumes "get_instance (Some (model req)) fs = (Inr llm, fs1)"
      and "process_prompt (prompt req) = Inr (Inr p)"
      and "stream req \<noteq> Some True"
      and "complete_method (klass llm) (params req) p = Inl e"
  shows "create_completion req fs =
         (Inr (case e of
                 ValueError m \<Rightarrow>
                   JSONResponse 400 (error_envelope m (u ''invalid_request_error''))
               | OtherException cls m \<Rightarrow>
                   JSONResponse 500
                     (error_envelope (u ''Completion request failed: '' @ m) (u ''server_error''))),
          fs1)"
  using assms
  by (cases e)
     (simp_all add: create_completion_def create_completion_try_def error_response_plain
        error_envelope_def)

lemma chat_backend_failure:
  assumes "get_instance (Some (model req)) fs = (Inr llm, fs1)"
      and "stream req \<noteq> Some True"
      and "chat_complete_method (klass llm) (params req) (messages req) = Inl e"
  shows "create_chat_completion req fs =
         (Inr (case e of
                 ValueError m \<Rightarrow>
                   JSONResponse 400 (error_envelope m (u ''invalid_request_error''))
               | OtherException cls m \<Rightarrow>
                   JSONResponse 500
                     (error_envelope (u ''Chat completion request failed: '' @ m)
                        (u ''server_error''))),
          fs1)"
  using assms
  by (cases e)
     (simp_all add: create_chat_completion_def create_chat_completion_try_def
        error_response_plain error_envelope_def)

lemmas handler_eval =
  get_instance_def instance_for_def construct_def register_def initial_factory_def
  create_completion_def create_completion_try_def create_chat_completion_def
  create_chat_completion_try_def process_prompt_def getitem0_def Let_def
  error_response_plain error_envelope_def

lemma completion_streaming:
  assumes "get_instance (Some (model req)) fs = (Inr llm, fs1)"
      and "process_prompt (prompt req) = Inr (Inr p)"
      and "stream req = Some True"
  shows "create_completion req fs =
         (Inr (create_stream_response (complete_stream_method (klass llm) (params req) p)), fs1)"
  using assms by (simp add: create_completion_def create_completion_try_def)

lemma chat_streaming:
  assumes "get_instance (Some (model req)) fs = (Inr llm, fs1)"
      and "stream req = Some True"
  shows "create_chat_completion req fs =
         (Inr (create_stream_response
                 (chat_complete_stream_method (klass llm) (params req) (messages req))), fs1)"
  using assms by (simp add: create_chat_completion_def create_chat_completion_try_def)

lemma raising_stream_response:
  "raised g = Some e \<Longrightarrow>
   create_stream_response g =
   StreamingResponse (map data_event (yielded g) @ [data_event (error_data e), done_event])
     (u ''text/event-stream'')"
  by (simp add: create_stream_response_def stream_generator_closed_form)

text \<open>
  C7, as amended. Neither handler raises: each returns a response for every request and
  every state of the registry, whatever the backend does. When the registry does not
  resolve the model, the answer is the envelope of type \<open>invalid_request_error\<close> with
  status 400 and the registry's message. For a request that does not stream, when the
  backend's call raises, a \<open>ValueError\<close> is answered with that envelope and status 400,
  and any other exception with the envelope of type \<open>server_error\<close> and status 500,
  whose message is the handler's prefix and the exception's message. For a request that
  streams, the handler returns the streaming response over the backend's generator; if
  the generator raises, a \<open>ValueError\<close> included, the stream carries the error event of
  type \<open>server_error\<close> for the exception and then the sentinel.
\<close>

theorem handlers_translate_failures:
  "(\<exists>r fs1. create_completion req fs = (Inr r, fs1))
   \<and> (\<forall>e fs1. get_instance (Some (model req)) fs = (Inl e, fs1) \<longrightarrow>
         create_completion req fs =
           (Inr (JSONResponse 400 (error_envelope (exn_str e) (u ''invalid_request_error''))), fs1))
   \<and> (\<forall>llm fs1 p e.
         get_instance (Some (model req)) fs = (Inr llm, fs1)
         \<and> process_prompt (prompt req) = Inr (Inr p)
         \<and> stream req \<noteq> Some True
         \<and> complete_method (klass llm) (params req) p = Inl e \<longrightarrow>
         create_completion req fs =
           (Inr (case e of
                   ValueError m \<Rightarrow>
                     JSONResponse 400 (error_envelope m (u ''invalid_request_error''))
                 | OtherException cls m \<Rightarrow>
                     JSONResponse 500
                       (error_envelope (u ''Completion request failed: '' @ m)
                          (u ''server_error''))),
            fs1))
   \<and> (\<forall>llm fs1 p.
         get_instance (Some (model req)) fs = (Inr llm, fs1)
         \<and> process_prompt (prompt req) = Inr (Inr p)
         \<and> stream req = Some True \<longrightarrow>
         create_completion req fs =
           (Inr (create_stream_response (complete_stream_method (klass llm) (params req) p)),
            fs1))
   \<and> (\<exists>r fs1. create_chat_completion creq fs' = (Inr r, fs1))
   \<and> (\<forall>e fs1. get_instance (Some (model creq)) fs' = (Inl e, fs1) \<longrightarrow>
         create_chat_completion creq fs' =
           (Inr (JSONResponse 400 (error_envelope (exn_str e) (u ''invalid_request_error''))), fs1))
   \<and> (\<forall>llm fs1 e.
         get_instance (Some (model creq)) fs' = (Inr llm, fs1)
         \<and> stream creq \<noteq> Some True
         \<and> chat_complete_method (klass llm) (params creq) (messages creq) = Inl e \<longrightarrow>
         create_chat_completion creq fs' =
           (Inr (case e of
                   ValueError m \<Rightarrow>
                     JSONResponse 400 (error_envelope m (u ''invalid_request_error''))
                 | OtherException cls m \<Rightarrow>
                     JSONResponse 500
                       (error_envelope (u ''Chat completion request failed: '' @ m)
                          (u ''server_error''))),
            fs1))
   \<and> (\<forall>llm fs1.
         get_instance (Some (model creq)) fs' = (Inr llm, fs1)
         \<and> stream creq = Some True \<longrightarrow>
         create_chat_completion creq fs' =
           (Inr (create_stream_response
                   (chat_complete_stream_method (klass llm) (params creq) (messages creq))),
            fs1))
   \<and> (\<forall>g e. raised g = Some e \<longrightarrow>
         create_stream_response g =
           StreamingResponse
             (map data_event (yielded g) @ [data_event (error_data e), done_event])
             (u ''text/event-stream''))"
proof (intro conjI allI impI)
  show "\<exists>r fs1. create_completion req fs = (Inr r, fs1)" by (rule create_completion_returns)
  show "\<exists>r fs1. create_chat_completion creq fs' = (Inr r, fs1)"
    by (rule create_chat_completion_returns)
qed (auto intro: completion_registry_failure chat_registry_failure
       completion_backend_failure chat_backend_failure completion_streaming chat_streaming
       raising_stream_response)

theorem handlers_translate_failures_witness:
  "fst (create_completion
          \<lparr>model = u ''nope'', stream = None, params = (), prompt = VStr (u ''Hi'')\<rparr>
          initial_factory) =
     Inr (JSONResponse 400
            (error_envelope (u ''Model '' @ [39] @ u ''nope'' @ [39] @ u '' not found'')
               (u ''invalid_request_error'')))
   \<and> fst (create_completion
            \<lparr>model = u ''bad'', stream = None, params = (), prompt = VStr (u ''Hi'')\<rparr>
            (register (u ''bad'')
               (raising_backend (OtherException (u ''RuntimeError'') (u ''boom''))) True
               initial_factory)) =
     Inr (JSONResponse 500
            (error_envelope (u ''Completion request failed: boom'') (u ''server_error'')))
   \<and> fst (create_chat_completion
            \<lparr>model = u ''bad'', stream = Some False, params = (), messages = []\<rparr>
            (register (u ''bad'') (raising_backend (ValueError (u ''bad argument''))) True
               initial_factory)) =
     Inr (JSONResponse 400 (error_envelope (u ''bad argument'') (u ''invalid_request_error'')))
   \<and> fst (create_chat_completion
            \<lparr>model = u ''bad'', stream = Some True, params = (), messages = []\<rparr>
            (register (u ''bad'') (raising_backend (ValueError (u ''bad argument''))) True
               initial_factory)) =
     Inr (StreamingResponse
            [data_event (error_data (ValueError (u ''bad argument''))), done_event]
            (u ''text/event-stream''))"
  using handlers_translate_failures
          [of "\<lparr>model = u ''nope'', stream = None, params = (), prompt = VStr (u ''Hi'')\<rparr>"
              "initial_factory"
              "\<lparr>model = u ''bad'', stream = Some True, params = (), messages = []\<rparr>"
              "register (u ''bad'') (raising_backend (ValueError (u ''bad argument''))) True
                 initial_factory"]
        handlers_translate_failures
          [of "\<lparr>model = u ''nope'', stream = None, params = (), prompt = VStr (u ''Hi'')\<rparr>"
              "initial_factory"
              "\<lparr>model = u ''bad'', stream = Some False, params = (), messages = []\<rparr>"
              "register (u ''bad'') (raising_backend (ValueError (u ''bad argument''))) True
                 initial_factory"]
        handlers_translate_failures
          [of "\<lparr>model = u ''bad'', stream = None, params = (), prompt = VStr (u ''Hi'')\<rparr>"
              "register (u ''bad'')
                 (raising_backend (OtherException (u ''RuntimeError'') (u ''boom''))) True
                 initial_factory"
              "\<lparr>model = u ''bad'', stream = Some False, params = (), messages = []\<rparr>"
              "initial_factory"]
  by (simp add: handler_eval raising_backend_def create_stream_response_def u_def)

text \<open>
  C7 as the specification states it fails for a streaming request: a \<open>ValueError\<close> that
  the backend's generator raises is answered with a streaming response whose error event
  has the type \<open>server_error\<close>, not with the envelope of type \<open>invalid_request_error\<close>
  and status 400.
\<close>

theorem streaming_value_error_counterexample:
  "fst (create_completion
          \<lparr>model = u ''bad'', stream = Some True, params = (), prompt = VStr (u ''Hi'')\<rparr>
          (register (u ''bad'') (raising_backend (ValueError (u ''bad argument''))) True
             initial_factory)) =
   Inr (StreamingResponse
          [u ''data: {'' @ [34] @ u ''error'' @ [34] @ u '': {'' @ [34] @ u ''message'' @ [34]
             @ u '': '' @ [34] @ u ''bad argument'' @ [34] @ u '', '' @ [34] @ u ''type'' @ [34]
             @ u '': '' @ [34] @ u ''server_error'' @ [34] @ u ''}}'' @ [10, 10],
           u ''data: [DONE]'' @ [10, 10]]
          (u ''text/event-stream''))"
  by (simp add: handler_eval raising_backend_def create_stream_response_def data_event_def
        done_event_def error_data_def encode_str_def escape_char_def u_def)

section \<open>Prompts given as lists\<close>

lemma process_prompt_strings:
  "list_all is_str xs \<Longrightarrow>
   process_prompt (VList xs) = Inr (Inr (case xs of [] \<Rightarrow> VStr [] | x # _ \<Rightarrow> x))"
  by (cases xs) (simp_all add: process_prompt_def getitem0_def)

lemma process_prompt_tokens:
  "\<not> list_all is_str xs \<Longrightarrow> process_prompt (VList xs) = Inr (Inl token_list_error)"
  by (simp add: process_prompt_def token_list_error_def error_response_param u_def)

lemma token_lists_are_not_strings:
  "xs \<noteq> [] \<Longrightarrow> list_all is_int xs \<or> list_all is_list xs \<Longrightarrow> \<not> list_all is_str xs"
  by (cases xs; cases "hd xs") auto

text \<open>
  C8, as amended. For a completion request whose model the registry resolves and whose
  prompt is a list: if every element is a string, the handler calls the backend with the
  first element alone, or with the empty string when the list is empty; otherwise, and so
  for every non-empty list of integers or of lists, it returns the envelope of type
  \<open>invalid_request_error\<close> with status 400 that names the parameter \<open>prompt\<close>, and
  the backend is not called.
\<close>

theorem list_prompt_handling:
  assumes "get_instance (Some (model req)) fs = (Inr llm, fs1)"
      and "prompt req = VList xs"
  shows "(list_all is_str xs \<longrightarrow>
            create_completion_try req fs =
              (let p = (case xs of [] \<Rightarrow> VStr [] | x # _ \<Rightarrow> x)
               in if stream req = Some True
                  then (Inr (create_stream_response
                               (complete_stream_method (klass llm) (params req) p)), fs1)
                  else (case complete_method (klass llm) (params req) p of
                          Inl e \<Rightarrow> (Inl e, fs1)
                        | Inr r \<Rightarrow> (Inr (Returned r), fs1))))
         \<and> (\<not> list_all is_str xs \<longrightarrow> create_completion req fs = (Inr token_list_error, fs1))
         \<and> (xs \<noteq> [] \<and> (list_all is_int xs \<or> list_all is_list xs) \<longrightarrow>
              create_completion req fs = (Inr token_list_error, fs1))"
proof -
  have tok: "create_completion req fs = (Inr token_list_error, fs1)" if "\<not> list_all is_str xs"
    using that assms
    by (simp add: create_completion_def create_completion_try_def process_prompt_tokens)
  have str: "create_completion_try req fs =
              (let p = (case xs of [] \<Rightarrow> VStr [] | x # _ \<Rightarrow> x)
               in if stream req = Some True
                  then (Inr (create_stream_response
                               (complete_stream_method (klass llm) (params req) p)), fs1)
                  else (case complete_method (klass llm) (params req) p of
                          Inl e \<Rightarrow> (Inl e, fs1)
                        | Inr r \<Rightarrow> (Inr (Returned r), fs1)))" if "list_all is_str xs"
    using that assms
    by (simp add: create_completion_try_def process_prompt_strings Let_def)
  from tok str token_lists_are_not_strings [of xs] show ?thesis by blast
qed

theorem list_prompt_handling_witness:
  "create_completion_try
     \<lparr>model = u ''mock-gpt'', stream = None, params = (),
      prompt = VList [VStr (u ''Hi''), VStr (u ''there'')]\<rparr>
     (register (u ''mock-gpt'') (MockLLM 0 0 1672531200) True initial_factory) =
   create_completion_try
     \<lparr>model = u ''mock-gpt'', stream = None, params = (), prompt = VStr (u ''Hi'')\<rparr>
     (register (u ''mock-gpt'') (MockLLM 0 0 1672531200) True initial_factory)
   \<and> fst (create_completion
            \<lparr>model = u ''mock-gpt'', stream = None, params = (),
             prompt = VList [VInt 1, VInt 2]\<rparr>
            (register (u ''mock-gpt'') (MockLLM 0 0 1672531200) True initial_factory)) =
     Inr token_list_error"
  using list_prompt_handling
          [of "\<lparr>model = u ''mock-gpt'', stream = None, params = (),
                prompt = VList [VStr (u ''Hi''), VStr (u ''there'')]\<rparr>"
              "register (u ''mock-gpt'') (MockLLM 0 0 1672531200) True initial_factory" _ _
              "[VStr (u ''Hi''), VStr (u ''there'')]"]
        list_prompt_handling
          [of "\<lparr>model = u ''mock-gpt'', stream = None, params = (),
                prompt = VList [VInt 1, VInt 2]\<rparr>"
              "register (u ''mock-gpt'') (MockLLM 0 0 1672531200) True initial_factory" _ _
              "[VInt 1, VInt 2]"]
  by (simp add: handler_eval token_list_error_def error_response_param u_def)

text \<open>
  C8 as the specification states it fails for a request whose model is not registered:
  the model is resolved before the prompt is looked at, so a token list sent to the unknown
  model \<open>gpt-x\<close> is answered with the envelope about the model, which names no
  parameter.
\<close>

theorem token_list_unknown_model_counterexample:
  "fst (create_completion
          \<lparr>model = u ''gpt-x'', stream = None, params = (), prompt = VList [VInt 1, VInt 2]\<rparr>
          (register (u ''mock-gpt'') (MockLLM 0 0 1672531200) True initial_factory)) =
     Inr (JSONResponse 400
            (JDict [(u ''error'',
                     JDict [(u ''message'',
                             JStr (u ''Model '' @ [39] @ u ''gpt-x'' @ [39] @ u '' not found'')),
                            (u ''type'', JStr (u ''invalid_request_error''))])]))
   \<and> fst (create_completion
          \<lparr>model = u ''gpt-x'', stream = None, params = (), prompt = VList [VInt 1, VInt 2]\<rparr>
          (register (u ''mock-gpt'') (MockLLM 0 0 1672531200) True initial_factory)) \<noteq> Inr token_list_error"
  by (simp add: handler_eval token_list_error_def u_def)

text \<open>
  C10. A completion request whose prompt is the empty list is accepted: the validator
  turns the empty list into the empty string, so the request object holds the empty
  string and the endpoint answers with what the handler gives for it. The handler's own
  prompt step also maps the empty list to the empty string, and it raises for no prompt
  at all: \<open>prompt[0]\<close> is never evaluated on an empty list.
\<close>

theorem empty_prompt_list_accepted:
  "validate_prompt (VList []) = Inr (VStr [])
   \<and> parse_completion_request (raw\<lparr>prompt := VList []\<rparr>) = Inr (raw\<lparr>prompt := VStr []\<rparr>)
   \<and> process_prompt (VList []) = Inr (Inr (VStr []))
   \<and> (\<forall>v e. process_prompt v \<noteq> Inl e)
   \<and> (\<exists>r fs1. post_completions (raw\<lparr>prompt := VList []\<rparr>) fs = (Responded r, fs1)
                \<and> create_completion (raw\<lparr>prompt := VStr []\<rparr>) fs = (Inr r, fs1))"
proof -
  have v: "validate_prompt (VList []) = Inr (VStr [])" by (simp add: validate_prompt_def)
  then have p: "parse_completion_request (raw\<lparr>prompt := VList []\<rparr>) = Inr (raw\<lparr>prompt := VStr []\<rparr>)"
    by (simp add: parse_completion_request_def)
  have h: "process_prompt (VList []) = Inr (Inr (VStr []))" by (simp add: process_prompt_def)
  from create_completion_returns [of "raw\<lparr>prompt := VStr []\<rparr>" fs] obtain r fs1
    where r: "create_completion (raw\<lparr>prompt := VStr []\<rparr>) fs = (Inr r, fs1)" by blast
  with p have "post_completions (raw\<lparr>prompt := VList []\<rparr>) fs = (Responded r, fs1)"
    by (simp add: post_completions_def)
  with v p h r process_prompt_never_raises show ?thesis by blast
qed

theorem empty_prompt_list_accepted_witness:
  "\<exists>r fs1.
     post_completions
       \<lparr>model = u ''mock-gpt'', stream = None, params = (), prompt = VList []\<rparr>
       (register (u ''mock-gpt'') (MockLLM 0 0 1672531200) True initial_factory) = (Responded r, fs1)
     \<and> r = Returned (complete 0 0 () [])"
  using empty_prompt_list_accepted
          [of "\<lparr>model = u ''mock-gpt'', stream = None, params = (), prompt = VList []\<rparr>"
              "register (u ''mock-gpt'') (MockLLM 0 0 1672531200) True initial_factory"]
  by (simp add: handler_eval MockLLM_def u_def)

section \<open>Chat completions and the last message\<close>

lemma response_content_last:
  "ms \<noteq> [] \<Longrightarrow> response_content_of ms = response_content_of [last ms]"
  by (simp add: response_content_of_def)

lemma chat_complete_keys:
  "dict_get (chat_complete t1 t2 ps ms) k =
   (if k = u ''usage''
    then Some (usage_dict (sum_list (map (\<lambda>msg. length (str_split (content msg))) ms))
                 (length (str_split (response_content_of ms))))
    else dict_get (create_chat_completion_response t1 t2 (response_content_of ms) model_name 0 0
                     (u ''stop'') (u ''assistant'')) k)"
  by (simp add: chat_complete_def create_chat_completion_response_def dict_get_def Let_def
        u_def)

lemma chat_loop_fragments:
  "map delta_content_of (chat_stream_loop cid cr n i ws) = map (\<lambda>w. w @ u '' '') ws"
  by (induction ws arbitrary: i) (simp_all add: json_access Let_def)

lemma chat_stream_fragments:
  "map delta_content_of (chat_complete_stream t1 t2 ps ms) =
   [] # map (\<lambda>w. w @ u '' '') (str_split (response_content_of ms)) @ [Nil]"
  unfolding chat_complete_stream_def Let_def list.map map_append chat_loop_fragments
  by (simp add: json_access)

text \<open>
  C9. For two non-empty message lists with the same last message, \<open>chat_complete\<close>
  returns the same choices, hence the same message content, and the two results, taken at
  the same clock readings, agree on every key but \<open>usage\<close>. The streamed content
  fragments agree as well.
\<close>

theorem chat_content_from_last_message:
  assumes "ms1 \<noteq> []" and "ms2 \<noteq> []" and "last ms1 = last ms2"
  shows "message_content_of (chat_complete t1 t2 ps ms1) =
           message_content_of (chat_complete t1 t2 ps ms2)
         \<and> dict_get (chat_complete t1 t2 ps ms1) (u ''choices'') =
           dict_get (chat_complete t1 t2 ps ms2) (u ''choices'')
         \<and> (\<forall>k. k \<noteq> u ''usage'' \<longrightarrow>
               dict_get (chat_complete t1 t2 ps ms1) k = dict_get (chat_complete t1 t2 ps ms2) k)
         \<and> map delta_content_of (chat_complete_stream t1 t2 ps ms1) =
           map delta_content_of (chat_complete_stream t1 t2 ps ms2)"
proof -
  from assms have eq: "response_content_of ms1 = response_content_of ms2"
    using response_content_last [of ms1] response_content_last [of ms2] by simp
  have k: "dict_get (chat_complete t1 t2 ps ms1) k = dict_get (chat_complete t1 t2 ps ms2) k"
    if "k \<noteq> u ''usage''" for k
    using that eq by (simp add: chat_complete_keys)
  have "u ''choices'' \<noteq> u ''usage''" by (simp add: u_def)
  with k eq show ?thesis
    by (simp add: chat_complete_content chat_stream_fragments)
qed

theorem chat_content_from_last_message_witness:
  "message_content_of
     (chat_complete 0 0 ()
        [\<lparr>role = u ''system'', content = u ''Be brief and kind'', name = None\<rparr>,
         \<lparr>role = u ''user'', content = u ''Hello!'', name = None\<rparr>]) =
   message_content_of
     (chat_complete 0 0 () [\<lparr>role = u ''user'', content = u ''Hello!'', name = None\<rparr>])
   \<and> dict_get
       (chat_complete 0 0 ()
          [\<lparr>role = u ''system'', content = u ''Be brief and kind'', name = None\<rparr>,
           \<lparr>role = u ''user'', content = u ''Hello!'', name = None\<rparr>]) (u ''usage'') \<noteq>
     dict_get
       (chat_complete 0 0 () [\<lparr>role = u ''user'', content = u ''Hello!'', name = None\<rparr>])
       (u ''usage'')"
  using chat_content_from_last_message
          [of "[\<lparr>role = u ''system'', content = u ''Be brief and kind'', name = None\<rparr>,
                \<lparr>role = u ''user'', content = u ''Hello!'', name = None\<rparr>]"
              "[\<lparr>role = u ''user'', content = u ''Hello!'', name = None\<rparr>]" 0 0 "()"]
  by (simp add: chat_complete_keys usage_dict_def str_split_def isspace_def u_def)

section \<open>An empty message list\<close>

lemma empty_messages_content:
  "response_content_of [] = u ''This is a mock chat response to: ''"
  "response_content_of [\<lparr>role = u ''user'', content = [], name = None\<rparr>] =
   u ''This is a mock chat response to: ''"
  by (simp_all add: response_content_of_def)

lemma empty_messages_chat_complete:
  "chat_complete t1 t2 ps [] =
   chat_complete t1 t2 ps [\<lparr>role = u ''user'', content = [], name = None\<rparr>]"
  by (simp add: chat_complete_def empty_messages_content str_split_def)

lemma empty_messages_chat_complete_stream:
  "chat_complete_stream t1 t2 ps [] =
   chat_complete_stream t1 t2 ps [\<lparr>role = u ''user'', content = [], name = None\<rparr>]"
  by (simp add: chat_complete_stream_def empty_messages_content str_split_def)

lemma empty_messages_refused:
  "post_chat_completions (raw\<lparr>messages := []\<rparr>) fs =
   (Refused (ValueError (u ''messages'' @ [19981, 33021, 20026, 31354])), fs)"
  by (simp add: post_chat_completions_def parse_chat_completion_request_def
        validate_messages_def)

lemma parsed_messages_nonempty:
  "parse_chat_completion_request raw = Inr req \<Longrightarrow> messages req \<noteq> []"
  by (auto simp: parse_chat_completion_request_def validate_messages_def split: if_splits)

text \<open>
  C3, as amended. The backend does not fail on an empty message list: \<open>chat_complete\<close>
  and \<open>chat_complete_stream\<close> give for it exactly what they give for the single user
  message with empty content, a normal result whose content is the mock's prefix. The
  endpoint, however, refuses a request whose message list is empty: the validator of the
  request schema raises for it, so the handler is not called, and every request that
  reaches the handler has a message.
\<close>

theorem empty_messages_backend_and_schema:
  "chat_complete t1 t2 ps [] =
     chat_complete t1 t2 ps [\<lparr>role = u ''user'', content = [], name = None\<rparr>]
   \<and> chat_complete_stream t1 t2 ps [] =
     chat_complete_stream t1 t2 ps [\<lparr>role = u ''user'', content = [], name = None\<rparr>]
   \<and> chat_complete_method (MockLLM t1 t2 t0) ps [] = Inr (chat_complete t1 t2 ps [])
   \<and> message_content_of (chat_complete t1 t2 ps []) = u ''This is a mock chat response to: ''
   \<and> post_chat_completions (raw\<lparr>messages := []\<rparr>) fs =
       (Refused (ValueError (u ''messages'' @ [19981, 33021, 20026, 31354])), fs)
   \<and> (\<forall>req. parse_chat_completion_request raw = Inr req \<longrightarrow> messages req \<noteq> [])"
proof (intro conjI allI impI)
  show "chat_complete_method (MockLLM t1 t2 t0) ps [] = Inr (chat_complete t1 t2 ps [])"
    by (simp add: MockLLM_def)
  show "message_content_of (chat_complete t1 t2 ps []) = u ''This is a mock chat response to: ''"
    by (simp only: chat_complete_content empty_messages_content)
qed (simp_all only: empty_messages_chat_complete [symmetric]
       empty_messages_chat_complete_stream [symmetric] empty_messages_refused
       parsed_messages_nonempty not_False_eq_True)

theorem empty_messages_backend_and_schema_witness:
  "message_content_of (chat_complete 0 0 () []) = u ''This is a mock chat response to: ''
   \<and> dict_get (chat_complete 0 0 () []) (u ''usage'') =
       Some (JDict [(u ''prompt_tokens'', JInt 0), (u ''completion_tokens'', JInt 7),
                    (u ''total_tokens'', JInt 7)])
   \<and> parse_chat_completion_request
       \<lparr>model = u ''mock-gpt'', stream = None, params = (),
        messages = [\<lparr>role = u ''user'', content = u ''Hello!'', name = None\<rparr>]\<rparr> =
     Inr \<lparr>model = u ''mock-gpt'', stream = None, params = (),
          messages = [\<lparr>role = u ''user'', content = u ''Hello!'', name = None\<rparr>]\<rparr>"
proof -
  from empty_messages_backend_and_schema
         [of 0 0 "()" 1672531200
             "\<lparr>model = u ''mock-gpt'', stream = None, params = (),
               messages = [\<lparr>role = u ''user'', content = u ''Hello!'', name = None\<rparr>]\<rparr>"
             "initial_factory :: unit factory"]
  have "message_content_of (chat_complete 0 0 () []) = u ''This is a mock chat response to: ''"
    by blast
  then show ?thesis
    by (simp add: chat_complete_keys usage_dict_def empty_messages_content str_split_def
          isspace_def u_def parse_chat_completion_request_def validate_messages_def)
qed

text \<open>
  C3 as the specification states it fails at the endpoint: the request with no messages
  is refused by the validator and gets no chat completion.
\<close>

theorem empty_messages_refused_counterexample:
  "fst (post_chat_completions
          \<lparr>model = u ''mock-gpt'', stream = None, params = (), messages = []\<rparr>
          (register (u ''mock-gpt'') (MockLLM 0 0 1672531200) True initial_factory)) =
   Refused (ValueError (u ''messages'' @ [19981, 33021, 20026, 31354]))"
  by (simp add: post_chat_completions_def parse_chat_completion_request_def
        validate_messages_def)

end
